theory Spec2Isabelle
  imports Main
begin

section \<open>Python values, dictionaries and exceptions\<close>

text \<open>
  Option values are free-form (\<open>Dict[str, Any]\<close>); the scalars that occur in catalog
  entries are modelled. \<open>bool\<close> is a subclass of \<open>int\<close> in Python, so \<open>True == 1\<close>.
\<close>

datatype pyval = PNone | PBool bool | PInt int | PStr string

fun py_int :: "pyval \<Rightarrow> int option" where
  "py_int (PBool b) = Some (if b then 1 else 0)"
| "py_int (PInt i) = Some i"
| "py_int PNone = None"
| "py_int (PStr s) = None"

text \<open>Python \<open>a == b\<close> and \<open>a != b\<close> on these values.\<close>

definition py_eq :: "pyval \<Rightarrow> pyval \<Rightarrow> bool" where
  "py_eq a b =
     (case (py_int a, py_int b) of
        (Some x, Some y) \<Rightarrow> x = y
      | (None, None) \<Rightarrow> a = b
      | _ \<Rightarrow> False)"

definition py_ne :: "pyval \<Rightarrow> pyval \<Rightarrow> bool" where
  "py_ne a b = (\<not> py_eq a b)"

text \<open>Truthiness of an optional string argument (\<open>None\<close> and \<open>""\<close> are falsy).\<close>

fun truthy_str :: "string option \<Rightarrow> bool" where
  "truthy_str None = False"
| "truthy_str (Some s) = (s \<noteq> [])"

text \<open>\<open>str(x)\<close> of an optional string argument.\<close>

fun str_path :: "string option \<Rightarrow> string" where
  "str_path None = ''None''"
| "str_path (Some p) = p"

text \<open>
  A \<open>dict\<close> keeps its keys in insertion order: assigning to a key that is present
  replaces the value in place, assigning to a new key appends.
\<close>

type_synonym 'v dict = "(string \<times> 'v) list"
type_synonym pydict = "pyval dict"

definition is_dict :: "'v dict \<Rightarrow> bool" where
  "is_dict d = distinct (map fst d)"

definition dict_get :: "'v dict \<Rightarrow> string \<Rightarrow> 'v option" where
  "dict_get d k = map_of d k"

definition dict_has :: "'v dict \<Rightarrow> string \<Rightarrow> bool" where
  "dict_has d k = (dict_get d k \<noteq> None)"

fun dict_setitem :: "string \<Rightarrow> 'v \<Rightarrow> 'v dict \<Rightarrow> 'v dict" where
  "dict_setitem k v [] = [(k, v)]"
| "dict_setitem k v ((k', v') # d) =
     (if k' = k then (k, v) # d else (k', v') # dict_setitem k v d)"

text \<open>\<open>d.update(u)\<close>: assigns the items of \<open>u\<close> in order.\<close>

fun dict_update :: "'v dict \<Rightarrow> 'v dict \<Rightarrow> 'v dict" where
  "dict_update d [] = d"
| "dict_update d ((k, v) # u) = dict_update (dict_setitem k v d) u"

text \<open>\<open>d.setdefault(k, v)\<close>: the dictionary afterwards.\<close>

definition dict_setdefault :: "string \<Rightarrow> 'v \<Rightarrow> 'v dict \<Rightarrow> 'v dict" where
  "dict_setdefault k v d = (if dict_has d k then d else d @ [(k, v)])"

text \<open>\<open>d.pop(k, default)\<close>: the value and the dictionary afterwards.\<close>

definition dict_pop :: "string \<Rightarrow> 'v \<Rightarrow> 'v dict \<Rightarrow> 'v \<times> 'v dict" where
  "dict_pop k dflt d =
     (case dict_get d k of
        None \<Rightarrow> (dflt, d)
      | Some v \<Rightarrow> (v, filter (\<lambda>p. fst p \<noteq> k) d))"

text \<open>\<open>d.get(k)\<close> on option values: \<open>None\<close> when the key is absent.\<close>

definition dict_get_none :: "pydict \<Rightarrow> string \<Rightarrow> pyval" where
  "dict_get_none d k = (case dict_get d k of None \<Rightarrow> PNone | Some v \<Rightarrow> v)"

text \<open>\<open>copy.deepcopy\<close>: the values are immutable here, a copy is the value itself.\<close>

definition deepcopy :: "'a \<Rightarrow> 'a" where
  "deepcopy x = x"

text \<open>\<open>x or {}\<close> for an optional dictionary.\<close>

fun or_empty :: "'v dict option \<Rightarrow> 'v dict" where
  "or_empty None = []"
| "or_empty (Some d) = d"

text \<open>
  Passing \<open>**a, **b\<close> (or a keyword together with \<open>**b\<close>) to one call raises
  \<open>TypeError\<close> when a keyword is given twice.
\<close>

datatype error =
    DatasetError string
  | KeyError string
  | TypeError string
  | AttributeError string
  | NotFound string
  | ExternalError string

definition kwargs_join :: "'v dict \<Rightarrow> 'v dict \<Rightarrow> error + 'v dict" where
  "kwargs_join a b =
     (if set (map fst a) \<inter> set (map fst b) \<noteq> {}
      then Inl (TypeError ''got multiple values for keyword argument'')
      else Inr (a @ b))"

text \<open>
  A call \<open>f(name=x, **kw)\<close> raises the same \<open>TypeError\<close>, before \<open>f\<close> is entered, when
  \<open>kw\<close> has a key that is also given by name.
\<close>

definition multiple_values_error :: error where
  "multiple_values_error = TypeError ''got multiple values for keyword argument''"

definition keyword_clash :: "string list \<Rightarrow> 'v dict \<Rightarrow> bool" where
  "keyword_clash names kw = (set names \<inter> set (map fst kw) \<noteq> {})"

definition is_DatasetError :: "error \<Rightarrow> bool" where
  "is_DatasetError e = (case e of DatasetError m \<Rightarrow> True | _ \<Rightarrow> False)"

definition is_KeyError :: "error \<Rightarrow> bool" where
  "is_KeyError e = (case e of KeyError m \<Rightarrow> True | _ \<Rightarrow> False)"

section \<open>Collaborators: the world outside the adapters\<close>

text \<open>
  The filesystem, the codecs, BigQuery and the Cohere client are libraries the adapters
  call. Their results are parameters (an environment of functions over an abstract
  backing store); the adapters' calls to them are recorded in a trace, in order.
\<close>

datatype event =
    EvFilesystem string
  | EvOpen string pydict
  | EvExists string
  | EvInvalidateCache string
  | EvSeqParse pydict
  | EvSeqWrite pydict
  | EvReadGraphml pydict
  | EvWriteGraphml pydict
  | EvCredentials
  | EvClient
  | EvReadGbq pydict
  | EvToGbq string pydict
  | EvGetTable string string
  | EvCohere pydict
  | EvCohereClient
  | EvCohereAsyncClient

record 's world =
  store :: 's
  trace :: "event list"

definition emit :: "event \<Rightarrow> 's world \<Rightarrow> 's world" where
  "emit e w = w\<lparr>trace := trace w @ [e]\<rparr>"

section \<open>CohereDataset (langchain/cohere.py)\<close>

record cohere_dataset =
  cohere_api_url :: string
  cohere_api_key :: string
  kwargs :: pydict

text \<open>\<open>CohereDataset.__init__\<close>: \<open>credentials[k]\<close> raises \<open>KeyError(k)\<close> for a missing key.\<close>

definition cohere_init :: "string dict \<Rightarrow> pydict option \<Rightarrow> error + cohere_dataset" where
  "cohere_init credentials kw =
     (case dict_get credentials ''cohere_api_url'' of
        None \<Rightarrow> Inl (KeyError ''cohere_api_url'')
      | Some url \<Rightarrow>
          (case dict_get credentials ''cohere_api_key'' of
             None \<Rightarrow> Inl (KeyError ''cohere_api_key'')
           | Some key \<Rightarrow>
               Inr \<lparr>cohere_api_url = url, cohere_api_key = key, kwargs = or_empty kw\<rparr>))"

definition cohere_describe :: "cohere_dataset \<Rightarrow> pydict" where
  "cohere_describe self = kwargs self"

definition cohere_save ::
  "cohere_dataset \<Rightarrow> 's world \<Rightarrow> 'd \<Rightarrow> (error + unit) \<times> cohere_dataset \<times> 's world" where
  "cohere_save self w data =
     (Inl (DatasetError ''CohereDataset is a read only data set type''), self, w)"

record ('l, 'k, 'a) cohere_env =
  mk_cohere :: "pydict \<Rightarrow> error + 'l"
  mk_cohere_client :: "string \<Rightarrow> string \<Rightarrow> 'l \<Rightarrow> error + 'k"
  mk_cohere_async_client :: "string \<Rightarrow> string \<Rightarrow> 'l \<Rightarrow> error + 'a"

record ('l, 'k, 'a) cohere_llm =
  llm :: 'l
  llm_client :: 'k
  llm_async_client :: 'a

definition cohere_load ::
  "('l, 'k, 'a) cohere_env \<Rightarrow> cohere_dataset \<Rightarrow> 's world
     \<Rightarrow> (error + ('l, 'k, 'a) cohere_llm) \<times> cohere_dataset \<times> 's world" where
  "cohere_load env self w =
     (case kwargs_join [(''cohere_api_key'', PStr ''_'')] (kwargs self) of
        Inl e \<Rightarrow> (Inl e, self, w)
      | Inr kws \<Rightarrow>
          (case mk_cohere env kws of
             Inl e \<Rightarrow> (Inl e, self, emit (EvCohere kws) w)
           | Inr l \<Rightarrow>
               (case mk_cohere_client env (cohere_api_key self) (cohere_api_url self) l of
                  Inl e \<Rightarrow> (Inl e, self, emit EvCohereClient (emit (EvCohere kws) w))
                | Inr c \<Rightarrow>
                    (case mk_cohere_async_client env
                            (cohere_api_key self) (cohere_api_url self) l of
                       Inl e \<Rightarrow>
                         (Inl e, self,
                          emit EvCohereAsyncClient
                            (emit EvCohereClient (emit (EvCohere kws) w)))
                     | Inr a \<Rightarrow>
                         (Inr \<lparr>llm = l, llm_client = c, llm_async_client = a\<rparr>, self,
                          emit EvCohereAsyncClient
                            (emit EvCohereClient (emit (EvCohere kws) w)))))))"


section \<open>Merging user options over the defaults\<close>

text \<open>
  Every constructor has the same four lines: \<open>deepcopy\<close> the class default, then
  \<open>update\<close> it with the user's mapping when one was given.
\<close>

definition handle_default_args :: "pydict \<Rightarrow> pydict option \<Rightarrow> pydict" where
  "handle_default_args defaults args =
     (case args of
        None \<Rightarrow> deepcopy defaults
      | Some u \<Rightarrow> dict_update (deepcopy defaults) u)"

section \<open>File-backed adapters: collaborators\<close>

text \<open>\<open>kedro.io.core.Version\<close>: a named tuple of an optional load and save version.\<close>

record version =
  v_load :: "string option"
  v_save :: "string option"

text \<open>Values of \<open>fs_args\<close> and \<open>credentials\<close>: a scalar or a nested mapping.\<close>

datatype fsval = FVal pyval | FDict pydict

text \<open>
  \<open>'s\<close> is the backing store (files and the filesystem's listing cache), \<open>'f\<close> a
  filesystem object, \<open>'h\<close> an open file and \<open>'d\<close> the domain object. The two path
  functions at the end are those of \<open>AbstractVersionedDataset\<close>.
\<close>

record ('s, 'f, 'h, 'd) file_env =
  get_protocol_and_path :: "string \<Rightarrow> version option \<Rightarrow> error + string \<times> string"
  get_filepath_str :: "string \<Rightarrow> string \<Rightarrow> string"
  pure_posix_path :: "string \<Rightarrow> string"
  filesystem :: "string \<Rightarrow> fsval dict \<Rightarrow> error + 'f"
  fs_open :: "'f \<Rightarrow> string \<Rightarrow> pydict \<Rightarrow> 's \<Rightarrow> error + 'h \<times> 's"
  fs_close :: "'h \<Rightarrow> 's \<Rightarrow> 's"
  fs_exists :: "'f \<Rightarrow> string \<Rightarrow> 's \<Rightarrow> error + bool"
  fs_invalidate_cache :: "'f \<Rightarrow> string \<Rightarrow> 's \<Rightarrow> 's"
  codec_parse :: "pydict \<Rightarrow> 'h \<Rightarrow> 's \<Rightarrow> error + 'd"
  codec_write :: "pydict \<Rightarrow> 'd \<Rightarrow> 'h \<Rightarrow> 's \<Rightarrow> error option \<times> 's"
  get_load_path :: "string \<Rightarrow> version option \<Rightarrow> 's \<Rightarrow> error + string"
  get_save_path :: "string \<Rightarrow> version option \<Rightarrow> 's \<Rightarrow> error + string"

text \<open>\<open>open_args.setdefault("mode", m)\<close> on what \<open>fs_args.pop\<close> returned.\<close>

definition open_args_mode :: "string \<Rightarrow> fsval \<Rightarrow> error + pydict" where
  "open_args_mode m a =
     (case a of
        FDict d \<Rightarrow> Inr (dict_setdefault ''mode'' (PStr m) d)
      | FVal v \<Rightarrow> Inl (AttributeError ''setdefault''))"

text \<open>Entries of the mapping \<open>_describe\<close> returns.\<close>

datatype descval = DStr string | DDict pydict | DVersion "version option"

section \<open>BioSequenceDataset (biosequence/biosequence_dataset.py)\<close>

definition BIO_DEFAULT_LOAD_ARGS :: pydict where
  "BIO_DEFAULT_LOAD_ARGS = []"

definition BIO_DEFAULT_SAVE_ARGS :: pydict where
  "BIO_DEFAULT_SAVE_ARGS = []"

record 'f bio_dataset =
  bio_filepath :: string
  bio_protocol :: string
  bio_fs :: 'f
  bio_load_args :: pydict
  bio_save_args :: pydict
  bio_fs_open_args_load :: pydict
  bio_fs_open_args_save :: pydict
  bio_metadata :: "pydict option"

definition bio_init ::
  "('s, 'f, 'h, 'd) file_env \<Rightarrow> string \<Rightarrow> pydict option \<Rightarrow> pydict option
     \<Rightarrow> fsval dict option \<Rightarrow> fsval dict option \<Rightarrow> pydict option \<Rightarrow> 's world
     \<Rightarrow> (error + 'f bio_dataset) \<times> 's world" where
  "bio_init env filepath load_args save_args credentials fs_args metadata w =
     (let fs_args0 = or_empty (deepcopy fs_args);
          (open_load, fs_args1) = dict_pop ''open_args_load'' (FDict []) fs_args0;
          (open_save, fs_args2) = dict_pop ''open_args_save'' (FDict []) fs_args1;
          creds = or_empty (deepcopy credentials)
      in case get_protocol_and_path env filepath None of
           Inl e \<Rightarrow> (Inl e, w)
         | Inr (protocol, path) \<Rightarrow>
             (let fs_args3 =
                    (if protocol = ''file''
                     then dict_setdefault ''auto_mkdir'' (FVal (PBool True)) fs_args2
                     else fs_args2)
              in case kwargs_join creds fs_args3 of
                   Inl e \<Rightarrow> (Inl e, w)
                 | Inr kw \<Rightarrow>
                     (case filesystem env protocol kw of
                        Inl e \<Rightarrow> (Inl e, emit (EvFilesystem protocol) w)
                      | Inr fs \<Rightarrow>
                          (case open_args_mode ''r'' open_load of
                             Inl e \<Rightarrow> (Inl e, emit (EvFilesystem protocol) w)
                           | Inr ol \<Rightarrow>
                               (case open_args_mode ''w'' open_save of
                                  Inl e \<Rightarrow> (Inl e, emit (EvFilesystem protocol) w)
                                | Inr os \<Rightarrow>
                                    (Inr \<lparr>bio_filepath = pure_posix_path env path,
                                          bio_protocol = protocol,
                                          bio_fs = fs,
                                          bio_load_args =
                                            handle_default_args BIO_DEFAULT_LOAD_ARGS load_args,
                                          bio_save_args =
                                            handle_default_args BIO_DEFAULT_SAVE_ARGS save_args,
                                          bio_fs_open_args_load = ol,
                                          bio_fs_open_args_save = os,
                                          bio_metadata = metadata\<rparr>,
                                     emit (EvFilesystem protocol) w))))))"

definition bio_describe :: "'f bio_dataset \<Rightarrow> descval dict" where
  "bio_describe self =
     [(''filepath'', DStr (bio_filepath self)),
      (''protocol'', DStr (bio_protocol self)),
      (''load_args'', DDict (bio_load_args self)),
      (''save_args'', DDict (bio_save_args self))]"

definition bio_load ::
  "('s, 'f, 'h, 'd) file_env \<Rightarrow> 'f bio_dataset \<Rightarrow> 's world
     \<Rightarrow> (error + 'd) \<times> 'f bio_dataset \<times> 's world" where
  "bio_load env self w =
     (let load_path = get_filepath_str env (bio_filepath self) (bio_protocol self);
          w1 = emit (EvOpen load_path (bio_fs_open_args_load self)) w
      in case fs_open env (bio_fs self) load_path (bio_fs_open_args_load self) (store w) of
           Inl e \<Rightarrow> (Inl e, self, w1)
         | Inr (h, s1) \<Rightarrow>
             (if keyword_clash [''handle''] (bio_load_args self)
              then (Inl multiple_values_error, self, w1\<lparr>store := fs_close env h s1\<rparr>)
              else
                (codec_parse env (bio_load_args self) h s1, self,
                 emit (EvSeqParse (bio_load_args self))
                   (w1\<lparr>store := fs_close env h s1\<rparr>))))"

definition bio_save ::
  "('s, 'f, 'h, 'd) file_env \<Rightarrow> 'f bio_dataset \<Rightarrow> 's world \<Rightarrow> 'd
     \<Rightarrow> (error + unit) \<times> 'f bio_dataset \<times> 's world" where
  "bio_save env self w data =
     (let save_path = get_filepath_str env (bio_filepath self) (bio_protocol self);
          w1 = emit (EvOpen save_path (bio_fs_open_args_save self)) w
      in case fs_open env (bio_fs self) save_path (bio_fs_open_args_save self) (store w) of
           Inl e \<Rightarrow> (Inl e, self, w1)
         | Inr (h, s1) \<Rightarrow>
             (if keyword_clash [''handle''] (bio_save_args self)
              then (Inl multiple_values_error, self, w1\<lparr>store := fs_close env h s1\<rparr>)
              else
                (case codec_write env (bio_save_args self) data h s1 of
                   (r, s2) \<Rightarrow>
                     ((case r of Some e \<Rightarrow> Inl e | None \<Rightarrow> Inr ()), self,
                      emit (EvSeqWrite (bio_save_args self))
                        (w1\<lparr>store := fs_close env h s2\<rparr>)))))"

definition bio_exists ::
  "('s, 'f, 'h, 'd) file_env \<Rightarrow> 'f bio_dataset \<Rightarrow> 's world
     \<Rightarrow> (error + bool) \<times> 'f bio_dataset \<times> 's world" where
  "bio_exists env self w =
     (let load_path = get_filepath_str env (bio_filepath self) (bio_protocol self)
      in (fs_exists env (bio_fs self) load_path (store w), self, emit (EvExists load_path) w))"

definition bio_invalidate_cache ::
  "('s, 'f, 'h, 'd) file_env \<Rightarrow> 'f bio_dataset \<Rightarrow> 's world \<Rightarrow> 's world" where
  "bio_invalidate_cache env self w =
     (let filepath = get_filepath_str env (bio_filepath self) (bio_protocol self)
      in emit (EvInvalidateCache filepath)
           (w\<lparr>store := fs_invalidate_cache env (bio_fs self) filepath (store w)\<rparr>))"

definition bio_release ::
  "('s, 'f, 'h, 'd) file_env \<Rightarrow> 'f bio_dataset \<Rightarrow> 's world
     \<Rightarrow> (error + unit) \<times> 'f bio_dataset \<times> 's world" where
  "bio_release env self w = (Inr (), self, bio_invalidate_cache env self w)"


section \<open>GraphMLDataset (networkx/graphml_dataset.py)\<close>

definition GRAPHML_DEFAULT_LOAD_ARGS :: pydict where
  "GRAPHML_DEFAULT_LOAD_ARGS = []"

definition GRAPHML_DEFAULT_SAVE_ARGS :: pydict where
  "GRAPHML_DEFAULT_SAVE_ARGS = []"

record 'f graphml_dataset =
  gml_filepath :: string
  gml_version :: "version option"
  gml_protocol :: string
  gml_fs :: 'f
  gml_load_args :: pydict
  gml_save_args :: pydict
  gml_fs_open_args_load :: pydict
  gml_fs_open_args_save :: pydict
  gml_metadata :: "pydict option"

definition graphml_init ::
  "('s, 'f, 'h, 'd) file_env \<Rightarrow> string \<Rightarrow> pydict option \<Rightarrow> pydict option
     \<Rightarrow> version option \<Rightarrow> fsval dict option \<Rightarrow> fsval dict option \<Rightarrow> pydict option
     \<Rightarrow> 's world \<Rightarrow> (error + 'f graphml_dataset) \<times> 's world" where
  "graphml_init env filepath load_args save_args ver credentials fs_args metadata w =
     (let fs_args0 = or_empty (deepcopy fs_args);
          (open_load, fs_args1) = dict_pop ''open_args_load'' (FDict []) fs_args0;
          (open_save, fs_args2) = dict_pop ''open_args_save'' (FDict []) fs_args1;
          creds = or_empty (deepcopy credentials)
      in case get_protocol_and_path env filepath ver of
           Inl e \<Rightarrow> (Inl e, w)
         | Inr (protocol, path) \<Rightarrow>
             (let fs_args3 =
                    (if protocol = ''file''
                     then dict_setdefault ''auto_mkdir'' (FVal (PBool True)) fs_args2
                     else fs_args2)
              in case kwargs_join creds fs_args3 of
                   Inl e \<Rightarrow> (Inl e, w)
                 | Inr kw \<Rightarrow>
                     (case filesystem env protocol kw of
                        Inl e \<Rightarrow> (Inl e, emit (EvFilesystem protocol) w)
                      | Inr fs \<Rightarrow>
                          (case open_args_mode ''rb'' open_load of
                             Inl e \<Rightarrow> (Inl e, emit (EvFilesystem protocol) w)
                           | Inr ol \<Rightarrow>
                               (case open_args_mode ''wb'' open_save of
                                  Inl e \<Rightarrow> (Inl e, emit (EvFilesystem protocol) w)
                                | Inr os \<Rightarrow>
                                    (Inr \<lparr>gml_filepath = pure_posix_path env path,
                                          gml_version = ver,
                                          gml_protocol = protocol,
                                          gml_fs = fs,
                                          gml_load_args =
                                            handle_default_args
                                              GRAPHML_DEFAULT_LOAD_ARGS load_args,
                                          gml_save_args =
                                            handle_default_args
                                              GRAPHML_DEFAULT_SAVE_ARGS save_args,
                                          gml_fs_open_args_load = ol,
                                          gml_fs_open_args_save = os,
                                          gml_metadata = metadata\<rparr>,
                                     emit (EvFilesystem protocol) w))))))"

definition graphml_describe :: "'f graphml_dataset \<Rightarrow> descval dict" where
  "graphml_describe self =
     [(''filepath'', DStr (gml_filepath self)),
      (''protocol'', DStr (gml_protocol self)),
      (''load_args'', DDict (gml_load_args self)),
      (''save_args'', DDict (gml_save_args self)),
      (''version'', DVersion (gml_version self))]"

definition graphml_invalidate_cache ::
  "('s, 'f, 'h, 'd) file_env \<Rightarrow> 'f graphml_dataset \<Rightarrow> 's world \<Rightarrow> 's world" where
  "graphml_invalidate_cache env self w =
     (let filepath = get_filepath_str env (gml_filepath self) (gml_protocol self)
      in emit (EvInvalidateCache filepath)
           (w\<lparr>store := fs_invalidate_cache env (gml_fs self) filepath (store w)\<rparr>))"

definition graphml_load ::
  "('s, 'f, 'h, 'd) file_env \<Rightarrow> 'f graphml_dataset \<Rightarrow> 's world
     \<Rightarrow> (error + 'd) \<times> 'f graphml_dataset \<times> 's world" where
  "graphml_load env self w =
     (case get_load_path env (gml_filepath self) (gml_version self) (store w) of
        Inl e \<Rightarrow> (Inl e, self, w)
      | Inr p \<Rightarrow>
          (let load_path = get_filepath_str env p (gml_protocol self);
               w1 = emit (EvOpen load_path (gml_fs_open_args_load self)) w
           in case fs_open env (gml_fs self) load_path (gml_fs_open_args_load self)
                     (store w) of
                Inl e \<Rightarrow> (Inl e, self, w1)
              | Inr (h, s1) \<Rightarrow>
                  (codec_parse env (gml_load_args self) h s1, self,
                   emit (EvReadGraphml (gml_load_args self))
                     (w1\<lparr>store := fs_close env h s1\<rparr>))))"

definition graphml_save ::
  "('s, 'f, 'h, 'd) file_env \<Rightarrow> 'f graphml_dataset \<Rightarrow> 's world \<Rightarrow> 'd
     \<Rightarrow> (error + unit) \<times> 'f graphml_dataset \<times> 's world" where
  "graphml_save env self w data =
     (case get_save_path env (gml_filepath self) (gml_version self) (store w) of
        Inl e \<Rightarrow> (Inl e, self, w)
      | Inr p \<Rightarrow>
          (let save_path = get_filepath_str env p (gml_protocol self);
               w1 = emit (EvOpen save_path (gml_fs_open_args_save self)) w
           in case fs_open env (gml_fs self) save_path (gml_fs_open_args_save self)
                     (store w) of
                Inl e \<Rightarrow> (Inl e, self, w1)
              | Inr (h, s1) \<Rightarrow>
                  (case codec_write env (gml_save_args self) data h s1 of
                     (Some e, s2) \<Rightarrow>
                       (Inl e, self,
                        emit (EvWriteGraphml (gml_save_args self))
                          (w1\<lparr>store := fs_close env h s2\<rparr>))
                   | (None, s2) \<Rightarrow>
                       (Inr (), self,
                        graphml_invalidate_cache env self
                          (emit (EvWriteGraphml (gml_save_args self))
                             (w1\<lparr>store := fs_close env h s2\<rparr>))))))"

definition graphml_exists ::
  "('s, 'f, 'h, 'd) file_env \<Rightarrow> 'f graphml_dataset \<Rightarrow> 's world
     \<Rightarrow> (error + bool) \<times> 'f graphml_dataset \<times> 's world" where
  "graphml_exists env self w =
     (case get_load_path env (gml_filepath self) (gml_version self) (store w) of
        Inl e \<Rightarrow> (Inl e, self, w)
      | Inr p \<Rightarrow>
          (let load_path = get_filepath_str env p (gml_protocol self)
           in (fs_exists env (gml_fs self) load_path (store w), self,
               emit (EvExists load_path) w)))"


section \<open>BigQuery adapters: collaborators\<close>

text \<open>
  \<open>credentials\<close> is either a mapping of constructor arguments or a ready
  \<open>Credentials\<close> object (\<open>'c\<close>). \<open>'cl\<close> is a \<open>bigquery.Client\<close>, \<open>'df\<close> a data frame.
\<close>

datatype 'c creds_arg = CredsDict pydict | CredsObj 'c

record ('s, 'c, 'cl, 'df, 'f) gbq_env =
  validate_on_forbidden_chars :: "string \<Rightarrow> string \<Rightarrow> error + unit"
  mk_credentials :: "pydict \<Rightarrow> error + 'c"
  mk_client :: "string option \<Rightarrow> 'c option \<Rightarrow> pyval \<Rightarrow> error + 'cl"
  read_gbq :: "string option \<Rightarrow> 'c option \<Rightarrow> pydict \<Rightarrow> 's \<Rightarrow> error + 'df"
  to_gbq :: "'df \<Rightarrow> string \<Rightarrow> string option \<Rightarrow> 'c option \<Rightarrow> pydict \<Rightarrow> 's
               \<Rightarrow> (error + unit) \<times> 's"
  get_table :: "'cl \<Rightarrow> string \<Rightarrow> string \<Rightarrow> 's \<Rightarrow> error + unit"
  q_get_protocol_and_path :: "string \<Rightarrow> error + string \<times> string"
  q_get_filepath_str :: "string \<Rightarrow> string \<Rightarrow> string"
  q_pure_posix_path :: "string \<Rightarrow> string"
  q_filesystem :: "string \<Rightarrow> fsval dict \<Rightarrow> error + 'f"
  q_read_file :: "'f \<Rightarrow> string \<Rightarrow> 's \<Rightarrow> error + string"

text \<open>
  \<open>if isinstance(credentials, dict): credentials = Credentials(**credentials)\<close>
\<close>

definition resolve_credentials ::
  "('s, 'c, 'cl, 'df, 'f) gbq_env \<Rightarrow> 'c creds_arg option \<Rightarrow> 's world
     \<Rightarrow> (error + 'c option) \<times> 's world" where
  "resolve_credentials env credentials w =
     (case credentials of
        None \<Rightarrow> (Inr None, w)
      | Some (CredsObj c) \<Rightarrow> (Inr (Some c), w)
      | Some (CredsDict d) \<Rightarrow>
          (case mk_credentials env d of
             Inl e \<Rightarrow> (Inl e, emit EvCredentials w)
           | Inr c \<Rightarrow> (Inr (Some c), emit EvCredentials w)))"

section \<open>GBQTableDataset (pandas/gbq_dataset.py)\<close>

definition GBQ_TABLE_DEFAULT_LOAD_ARGS :: pydict where
  "GBQ_TABLE_DEFAULT_LOAD_ARGS = []"

definition GBQ_TABLE_DEFAULT_SAVE_ARGS :: pydict where
  "GBQ_TABLE_DEFAULT_SAVE_ARGS = [(''progress_bar'', PBool False)]"

record ('c, 'cl) gbq_table_dataset =
  t_load_args :: pydict
  t_save_args :: pydict
  t_dataset :: string
  t_table_name :: string
  t_project_id :: "string option"
  t_credentials :: "'c option"
  t_client :: 'cl
  t_metadata :: "pydict option"

text \<open>The message is abbreviated (without its quotation marks and the link).\<close>

definition location_error :: error where
  "location_error =
     DatasetError ''load_args[location] is different from save_args[location].''"

text \<open>\<open>_validate_location\<close>, on the two merged maps.\<close>

definition validate_location :: "pydict \<Rightarrow> pydict \<Rightarrow> error + unit" where
  "validate_location load_args save_args =
     (let save_location = dict_get_none save_args ''location'';
          load_location = dict_get_none load_args ''location''
      in if py_ne save_location load_location then Inl location_error else Inr ())"

definition gbq_table_init ::
  "('s, 'c, 'cl, 'df, 'f) gbq_env \<Rightarrow> string \<Rightarrow> string \<Rightarrow> string option
     \<Rightarrow> 'c creds_arg option \<Rightarrow> pydict option \<Rightarrow> pydict option \<Rightarrow> pydict option
     \<Rightarrow> 's world \<Rightarrow> (error + ('c, 'cl) gbq_table_dataset) \<times> 's world" where
  "gbq_table_init env dataset table_name project credentials load_args save_args
       metadata w =
     (let la = handle_default_args GBQ_TABLE_DEFAULT_LOAD_ARGS load_args;
          sa = handle_default_args GBQ_TABLE_DEFAULT_SAVE_ARGS save_args
      in case validate_location la sa of
           Inl e \<Rightarrow> (Inl e, w)
         | Inr u \<Rightarrow>
             (case validate_on_forbidden_chars env dataset table_name of
                Inl e \<Rightarrow> (Inl e, w)
              | Inr u \<Rightarrow>
                  (case resolve_credentials env credentials w of
                     (Inl e, w1) \<Rightarrow> (Inl e, w1)
                   | (Inr creds, w1) \<Rightarrow>
                       (case mk_client env project creds (dict_get_none sa ''location'') of
                          Inl e \<Rightarrow> (Inl e, emit EvClient w1)
                        | Inr client \<Rightarrow>
                            (Inr \<lparr>t_load_args = la, t_save_args = sa,
                                  t_dataset = dataset, t_table_name = table_name,
                                  t_project_id = project, t_credentials = creds,
                                  t_client = client, t_metadata = metadata\<rparr>,
                             emit EvClient w1)))))"

definition gbq_table_describe :: "('c, 'cl) gbq_table_dataset \<Rightarrow> descval dict" where
  "gbq_table_describe self =
     [(''dataset'', DStr (t_dataset self)),
      (''table_name'', DStr (t_table_name self)),
      (''load_args'', DDict (t_load_args self)),
      (''save_args'', DDict (t_save_args self))]"

text \<open>\<open>_load\<close> calls \<open>setdefault\<close> on the stored \<open>self._load_args\<close> itself.\<close>

definition gbq_table_load ::
  "('s, 'c, 'cl, 'df, 'f) gbq_env \<Rightarrow> ('c, 'cl) gbq_table_dataset \<Rightarrow> 's world
     \<Rightarrow> (error + 'df) \<times> ('c, 'cl) gbq_table_dataset \<times> 's world" where
  "gbq_table_load env self w =
     (let sql = ''select * from '' @ t_dataset self @ ''.'' @ t_table_name self;
          self1 = self\<lparr>t_load_args := dict_setdefault ''query'' (PStr sql) (t_load_args self)\<rparr>
      in if keyword_clash [''project_id'', ''credentials''] (t_load_args self1)
         then (Inl multiple_values_error, self1, w)
         else
           (read_gbq env (t_project_id self1) (t_credentials self1) (t_load_args self1)
              (store w),
            self1, emit (EvReadGbq (t_load_args self1)) w))"

definition gbq_table_save ::
  "('s, 'c, 'cl, 'df, 'f) gbq_env \<Rightarrow> ('c, 'cl) gbq_table_dataset \<Rightarrow> 's world \<Rightarrow> 'df
     \<Rightarrow> (error + unit) \<times> ('c, 'cl) gbq_table_dataset \<times> 's world" where
  "gbq_table_save env self w data =
     (let dest = t_dataset self @ ''.'' @ t_table_name self
      in if keyword_clash [''project_id'', ''credentials''] (t_save_args self)
         then (Inl multiple_values_error, self, w)
         else
           (case to_gbq env data dest (t_project_id self) (t_credentials self)
                   (t_save_args self) (store w) of
              (r, s1) \<Rightarrow>
                (r, self, emit (EvToGbq dest (t_save_args self)) (w\<lparr>store := s1\<rparr>))))"

text \<open>\<open>_exists\<close>: only \<open>NotFound\<close> is caught.\<close>

definition gbq_table_exists ::
  "('s, 'c, 'cl, 'df, 'f) gbq_env \<Rightarrow> ('c, 'cl) gbq_table_dataset \<Rightarrow> 's world
     \<Rightarrow> (error + bool) \<times> ('c, 'cl) gbq_table_dataset \<times> 's world" where
  "gbq_table_exists env self w =
     (let w1 = emit (EvGetTable (t_dataset self) (t_table_name self)) w
      in case get_table env (t_client self) (t_dataset self) (t_table_name self) (store w) of
           Inr u \<Rightarrow> (Inr True, self, w1)
         | Inl (NotFound m) \<Rightarrow> (Inr False, self, w1)
         | Inl e \<Rightarrow> (Inl e, self, w1))"


section \<open>GBQQueryDataset (pandas/gbq_dataset.py)\<close>

definition GBQ_QUERY_DEFAULT_LOAD_ARGS :: pydict where
  "GBQ_QUERY_DEFAULT_LOAD_ARGS = []"

text \<open>
  \<open>_protocol\<close> and \<open>_fs\<close> are only assigned on the \<open>filepath\<close> branch of the
  constructor; \<open>None\<close> stands for the attribute that was never set.
\<close>

record ('c, 'cl, 'f) gbq_query_dataset =
  q_load_args :: pydict
  q_project_id :: "string option"
  q_credentials :: "'c option"
  q_client :: 'cl
  q_filepath :: "string option"
  q_protocol :: "string option"
  q_fs :: "'f option"
  q_metadata :: "pydict option"

definition both_provided_error :: error where
  "both_provided_error =
     DatasetError ''sql and filepath arguments cannot both be provided.Please only provide one.''"

definition both_empty_error :: error where
  "both_empty_error =
     DatasetError ''sql and filepath arguments cannot both be empty.''"

text \<open>\<open>**_fs_credentials\<close>: the popped value has to be a mapping.\<close>

definition as_kwargs :: "fsval \<Rightarrow> error + fsval dict" where
  "as_kwargs v =
     (case v of
        FDict d \<Rightarrow> Inr (map (\<lambda>(k, x). (k, FVal x)) d)
      | FVal x \<Rightarrow> Inl (TypeError ''argument after ** must be a mapping''))"

definition gbq_query_init ::
  "('s, 'c, 'cl, 'df, 'f) gbq_env \<Rightarrow> string option \<Rightarrow> string option
     \<Rightarrow> 'c creds_arg option \<Rightarrow> pydict option \<Rightarrow> fsval dict option \<Rightarrow> string option
     \<Rightarrow> pydict option \<Rightarrow> 's world
     \<Rightarrow> (error + ('c, 'cl, 'f) gbq_query_dataset) \<times> 's world" where
  "gbq_query_init env sql project credentials load_args fs_args filepath metadata w =
     (if truthy_str sql \<and> truthy_str filepath then (Inl both_provided_error, w)
      else if \<not> (truthy_str sql \<or> truthy_str filepath) then (Inl both_empty_error, w)
      else
        (let la = handle_default_args GBQ_QUERY_DEFAULT_LOAD_ARGS load_args
         in case resolve_credentials env credentials w of
              (Inl e, w1) \<Rightarrow> (Inl e, w1)
            | (Inr creds, w1) \<Rightarrow>
                (case mk_client env project creds (dict_get_none la ''location'') of
                   Inl e \<Rightarrow> (Inl e, emit EvClient w1)
                 | Inr client \<Rightarrow>
                     (let w2 = emit EvClient w1
                      in if truthy_str sql
                         then
                           (Inr \<lparr>q_load_args = dict_setitem ''query'' (PStr (str_path sql)) la,
                                 q_project_id = project, q_credentials = creds,
                                 q_client = client, q_filepath = None,
                                 q_protocol = None, q_fs = None,
                                 q_metadata = metadata\<rparr>, w2)
                         else
                           (let fs_args0 = or_empty (deepcopy fs_args);
                                (fs_creds, fs_args1) =
                                  dict_pop ''credentials'' (FDict []) fs_args0
                            in case q_get_protocol_and_path env (str_path filepath) of
                                 Inl e \<Rightarrow> (Inl e, w2)
                               | Inr (protocol, path) \<Rightarrow>
                                   (case as_kwargs fs_creds of
                                      Inl e \<Rightarrow> (Inl e, w2)
                                    | Inr ckw \<Rightarrow>
                                        (case kwargs_join ckw fs_args1 of
                                           Inl e \<Rightarrow> (Inl e, w2)
                                         | Inr kw \<Rightarrow>
                                             (case q_filesystem env protocol kw of
                                                Inl e \<Rightarrow>
                                                  (Inl e, emit (EvFilesystem protocol) w2)
                                              | Inr fs \<Rightarrow>
                                                  (Inr \<lparr>q_load_args = la,
                                                        q_project_id = project,
                                                        q_credentials = creds,
                                                        q_client = client,
                                                        q_filepath = Some path,
                                                        q_protocol = Some protocol,
                                                        q_fs = Some fs,
                                                        q_metadata = metadata\<rparr>,
                                                   emit (EvFilesystem protocol) w2)))))))))"

text \<open>
  \<open>_describe\<close> returns strings made by \<open>str\<close>; Python's \<open>str\<close> on a value and on a
  mapping are parameters.
\<close>

record builtins =
  str_val :: "pyval \<Rightarrow> string"
  str_dict :: "pydict \<Rightarrow> string"

definition gbq_query_describe ::
  "builtins \<Rightarrow> ('c, 'cl, 'f) gbq_query_dataset \<Rightarrow> descval dict" where
  "gbq_query_describe py self =
     (case dict_pop ''query'' PNone (deepcopy (q_load_args self)) of
        (query, load_args) \<Rightarrow>
          [(''sql'', DStr (str_val py query)),
           (''filepath'', DStr (str_path (q_filepath self))),
           (''load_args'', DStr (str_dict py load_args))])"

definition gbq_query_load ::
  "('s, 'c, 'cl, 'df, 'f) gbq_env \<Rightarrow> ('c, 'cl, 'f) gbq_query_dataset \<Rightarrow> 's world
     \<Rightarrow> (error + 'df) \<times> ('c, 'cl, 'f) gbq_query_dataset \<times> 's world" where
  "gbq_query_load env self w =
     (let load_args = deepcopy (q_load_args self)
      in if truthy_str (q_filepath self)
         then
           (case (q_protocol self, q_fs self) of
              (Some protocol, Some fs) \<Rightarrow>
                (let load_path =
                       q_get_filepath_str env
                         (q_pure_posix_path env (str_path (q_filepath self))) protocol;
                     w1 = emit (EvOpen load_path [(''mode'', PStr ''r'')]) w
                 in case q_read_file env fs load_path (store w) of
                      Inl e \<Rightarrow> (Inl e, self, w1)
                    | Inr text \<Rightarrow>
                        (let load_args1 = dict_setitem ''query'' (PStr text) load_args
                         in if keyword_clash [''project_id'', ''credentials''] load_args1
                            then (Inl multiple_values_error, self, w1)
                            else
                              (read_gbq env (q_project_id self) (q_credentials self)
                                 load_args1 (store w),
                               self, emit (EvReadGbq load_args1) w1)))
            | _ \<Rightarrow> (Inl (AttributeError ''_protocol''), self, w))
         else if keyword_clash [''project_id'', ''credentials''] load_args
         then (Inl multiple_values_error, self, w)
         else
           (read_gbq env (q_project_id self) (q_credentials self) load_args (store w),
            self, emit (EvReadGbq load_args) w))"

definition gbq_query_save ::
  "('c, 'cl, 'f) gbq_query_dataset \<Rightarrow> 's world \<Rightarrow> 'd
     \<Rightarrow> (error + unit) \<times> ('c, 'cl, 'f) gbq_query_dataset \<times> 's world" where
  "gbq_query_save self w data =
     (Inl (DatasetError ''save is not supported on GBQQueryDataset''), self, w)"

section \<open>Vocabulary of the properties\<close>

text \<open>The value a user's optional mapping gives to a key, if any.\<close>

definition user_get :: "pydict option \<Rightarrow> string \<Rightarrow> pyval option" where
  "user_get args k = (case args of None \<Rightarrow> None | Some u \<Rightarrow> dict_get u k)"

text \<open>An argument that is \<open>None\<close> or a mapping (its keys are distinct).\<close>

definition is_mapping_arg :: "'v dict option \<Rightarrow> bool" where
  "is_mapping_arg args = (case args of None \<Rightarrow> True | Some u \<Rightarrow> is_dict u)"

text \<open>
  The specification's merged map, in its own words: the default map shallow-overridden
  by the user map.
\<close>

definition overridden :: "pydict \<Rightarrow> pydict option \<Rightarrow> string \<Rightarrow> pyval option" where
  "overridden defaults args k =
     (case user_get args k of Some v \<Rightarrow> Some v | None \<Rightarrow> dict_get defaults k)"

definition is_NotFound :: "error \<Rightarrow> bool" where
  "is_NotFound e = (case e of NotFound m \<Rightarrow> True | _ \<Rightarrow> False)"

section \<open>Test doubles for the collaborators\<close>

text \<open>
  An in-memory filesystem whose files hold lists of record ids, and a BigQuery stub whose
  calls all succeed; \<open>read_gbq\<close> returns the keyword arguments it was given.
\<close>

definition mem_file_env :: "(string list dict, unit, string, string list) file_env" where
  "mem_file_env =
     \<lparr>get_protocol_and_path = (\<lambda>fp v. Inr (''file'', fp)),
      get_filepath_str = (\<lambda>p proto. p),
      pure_posix_path = (\<lambda>p. p),
      filesystem = (\<lambda>proto kw. Inr ()),
      fs_open = (\<lambda>f p args s. Inr (p, s)),
      fs_close = (\<lambda>h s. s),
      fs_exists = (\<lambda>f p s. Inr (dict_has s p)),
      fs_invalidate_cache = (\<lambda>f p s. s),
      codec_parse =
        (\<lambda>args h s. case dict_get s h of
                       None \<Rightarrow> Inl (ExternalError ''no such file'')
                     | Some d \<Rightarrow> Inr d),
      codec_write = (\<lambda>args d h s. (None, dict_setitem h d s)),
      get_load_path = (\<lambda>p v s. Inr p),
      get_save_path = (\<lambda>p v s. Inr p)\<rparr>"

definition stub_gbq_env :: "(unit, pydict, unit, pydict, unit) gbq_env" where
  "stub_gbq_env =
     \<lparr>validate_on_forbidden_chars = (\<lambda>d t. Inr ()),
      mk_credentials = (\<lambda>d. Inr d),
      mk_client = (\<lambda>p c l. Inr ()),
      read_gbq = (\<lambda>p c args s. Inr args),
      to_gbq = (\<lambda>df dest p c args s. (Inr (), s)),
      get_table = (\<lambda>cl d t s. Inr ()),
      q_get_protocol_and_path = (\<lambda>fp. Inr (''file'', fp)),
      q_get_filepath_str = (\<lambda>p proto. p),
      q_pure_posix_path = (\<lambda>p. p),
      q_filesystem = (\<lambda>proto kw. Inr ()),
      q_read_file = (\<lambda>f p s. Inr ''SELECT 1'')\<rparr>"

definition w0 :: "unit world" where
  "w0 = \<lparr>store = (), trace = []\<rparr>"


text \<open>Variants of the stub whose existence probe raises.\<close>

definition not_found_gbq_env :: "(unit, pydict, unit, pydict, unit) gbq_env" where
  "not_found_gbq_env = stub_gbq_env\<lparr>get_table := (\<lambda>cl d t s. Inl (NotFound ''Not found: Table''))\<rparr>"

definition forbidden_gbq_env :: "(unit, pydict, unit, pydict, unit) gbq_env" where
  "forbidden_gbq_env = stub_gbq_env\<lparr>get_table := (\<lambda>cl d t s. Inl (ExternalError ''Forbidden''))\<rparr>"

text \<open>The instance \<open>GBQTableDataset("ds", "tbl")\<close> builds on the stub.\<close>

definition stub_table :: "(pydict, unit) gbq_table_dataset" where
  "stub_table =
     \<lparr>t_load_args = [], t_save_args = [(''progress_bar'', PBool False)],
      t_dataset = ''ds'', t_table_name = ''tbl'', t_project_id = None,
      t_credentials = None, t_client = (), t_metadata = None\<rparr>"

text \<open>
  "Otherwise valid arguments" of \<open>GBQQueryDataset\<close>, call by call: the collaborators
  accept the arguments the constructor passes them. \<open>Credentials\<close> is only called for a
  mapping; the client gets the resulting credentials object and the merged location.
\<close>

definition credentials_accepted ::
  "('s, 'c, 'cl, 'df, 'f) gbq_env \<Rightarrow> 'c creds_arg option \<Rightarrow> bool" where
  "credentials_accepted env credentials =
     (case credentials of
        Some (CredsDict d) \<Rightarrow> \<not> isl (mk_credentials env d)
      | _ \<Rightarrow> True)"

definition credentials_object ::
  "('s, 'c, 'cl, 'df, 'f) gbq_env \<Rightarrow> 'c creds_arg option \<Rightarrow> 'c option" where
  "credentials_object env credentials =
     (case credentials of
        None \<Rightarrow> None
      | Some (CredsObj c) \<Rightarrow> Some c
      | Some (CredsDict d) \<Rightarrow>
          (case mk_credentials env d of Inr c \<Rightarrow> Some c | Inl e \<Rightarrow> None))"

definition client_accepted ::
  "('s, 'c, 'cl, 'df, 'f) gbq_env \<Rightarrow> string option \<Rightarrow> 'c creds_arg option
     \<Rightarrow> pydict option \<Rightarrow> bool" where
  "client_accepted env project credentials load_args =
     (\<not> isl (mk_client env project (credentials_object env credentials)
              (dict_get_none (handle_default_args GBQ_QUERY_DEFAULT_LOAD_ARGS load_args)
                 ''location'')))"

text \<open>
  On the \<open>filepath\<close> branch: the path parses, \<open>fs_args["credentials"]\<close>, when present, is
  a mapping that shares no key with the rest of \<open>fs_args\<close>, and \<open>fsspec.filesystem\<close>
  accepts the protocol with those keyword arguments.
\<close>

definition query_file_accepted ::
  "('s, 'c, 'cl, 'df, 'f) gbq_env \<Rightarrow> fsval dict option \<Rightarrow> string option \<Rightarrow> bool" where
  "query_file_accepted env fs_args filepath =
     (case q_get_protocol_and_path env (str_path filepath) of
        Inl e \<Rightarrow> False
      | Inr (protocol, path) \<Rightarrow>
          (case dict_pop ''credentials'' (FDict []) (or_empty fs_args) of
             (FDict c, rest) \<Rightarrow>
               set (map fst c) \<inter> set (map fst rest) = {}
               \<and> \<not> isl (q_filesystem env protocol (map (\<lambda>(k, x). (k, FVal x)) c @ rest))
           | (FVal v, rest) \<Rightarrow> False))"

text \<open>
  A BigQuery environment in which \<open>Credentials\<close> rejects the empty mapping and no
  filesystem can be made.
\<close>

definition picky_gbq_env :: "(unit, pydict, unit, pydict, unit) gbq_env" where
  "picky_gbq_env =
     stub_gbq_env
       \<lparr>mk_credentials :=
          (\<lambda>d. if d = [] then Inl (TypeError ''missing token'') else Inr d),
        q_filesystem := (\<lambda>proto kw. Inl (ExternalError ''no filesystem''))\<rparr>"

text \<open>\<open>args.get(k)\<close> on an optional argument mapping: \<open>None\<close> when absent.\<close>

definition arg_get_none :: "pydict option \<Rightarrow> string \<Rightarrow> pyval" where
  "arg_get_none args k = (case user_get args k of None \<Rightarrow> PNone | Some v \<Rightarrow> v)"

text \<open>
  A constructor call returns an error or the instance, with the world afterwards.
\<close>

definition succeeds :: "(error + 'a) \<times> 'w \<Rightarrow> bool" where
  "succeeds r = (\<not> isl (fst r))"

text \<open>The instance a successful constructor call returns.\<close>

definition constructed :: "(error + 'a) \<times> 'w \<Rightarrow> 'a" where
  "constructed r = projr (fst r)"

text \<open>A stand-in for \<open>str\<close>, and the empty in-memory filesystem.\<close>

definition stub_builtins :: builtins where
  "stub_builtins =
     \<lparr>str_val =
        (\<lambda>v. case v of
               PNone \<Rightarrow> ''None''
             | PBool b \<Rightarrow> (if b then ''True'' else ''False'')
             | PInt i \<Rightarrow> ''<int>''
             | PStr s \<Rightarrow> s),
      str_dict = (\<lambda>d. if d = [] then ''{}'' else ''{...}'')\<rparr>"

definition wf0 :: "string list dict world" where
  "wf0 = \<lparr>store = [], trace = []\<rparr>"

text \<open>
  What a description holds for the key \<open>key\<close> is a mapping with the lookups of the
  default map overridden by the user's.
\<close>

definition reports_merged ::
  "descval dict \<Rightarrow> string \<Rightarrow> pydict \<Rightarrow> pydict option \<Rightarrow> bool" where
  "reports_merged desc key defaults args =
     (case dict_get desc key of
        Some (DDict m) \<Rightarrow> (\<forall>k. dict_get m k = overridden defaults args k)
      | _ \<Rightarrow> False)"

text \<open>The instance \<open>GBQQueryDataset(sql="SELECT 1", load_args={"query": "SELECT 2"})\<close>.\<close>

definition stub_query :: "(pydict, unit, unit) gbq_query_dataset" where
  "stub_query =
     \<lparr>q_load_args = [(''query'', PStr ''SELECT 1'')], q_project_id = None,
      q_credentials = None, q_client = (), q_filepath = None, q_protocol = None,
      q_fs = None, q_metadata = None\<rparr>"

text \<open>
  The instance \<open>BioSequenceDataset(filepath="ls_orchid.fasta", load_args={"format":
  "fasta"}, save_args={"format": "fasta"})\<close> on the in-memory filesystem.
\<close>

definition bio_demo :: "unit bio_dataset" where
  "bio_demo =
     \<lparr>bio_filepath = ''ls_orchid.fasta'', bio_protocol = ''file'', bio_fs = (),
      bio_load_args = [(''format'', PStr ''fasta'')],
      bio_save_args = [(''format'', PStr ''fasta'')],
      bio_fs_open_args_load = [(''mode'', PStr ''r'')],
      bio_fs_open_args_save = [(''mode'', PStr ''w'')],
      bio_metadata = None\<rparr>"

section \<open>Dictionary lemmas\<close>

lemma dict_get_Nil: "dict_get [] k = None"
  by (simp add: dict_get_def)

lemma dict_get_Cons: "dict_get ((k', v') # d) k = (if k = k' then Some v' else dict_get d k)"
  by (simp add: dict_get_def)

lemma dict_get_setitem:
  "dict_get (dict_setitem k v d) k' = (if k' = k then Some v else dict_get d k')"
  by (induction d) (auto simp: dict_get_Cons dict_get_Nil)

lemma keys_setitem:
  "map fst (dict_setitem k v d) =
     (if k \<in> set (map fst d) then map fst d else map fst d @ [k])"
  by (induction d) (force simp: image_iff)+

lemma is_dict_setitem: "is_dict d \<Longrightarrow> is_dict (dict_setitem k v d)"
  by (simp add: is_dict_def keys_setitem del: set_map)

lemma is_dict_update: "is_dict d \<Longrightarrow> is_dict (dict_update d u)"
  by (induction d u rule: dict_update.induct) (simp_all add: is_dict_setitem)

lemma dict_get_absent: "k \<notin> fst ` set d \<Longrightarrow> dict_get d k = None"
  by (simp add: dict_get_def map_of_eq_None_iff)

lemma dict_get_update:
  "is_dict u \<Longrightarrow>
   dict_get (dict_update d u) k = (case dict_get u k of Some v \<Rightarrow> Some v | None \<Rightarrow> dict_get d k)"
proof (induction d u rule: dict_update.induct)
  case (1 d)
  then show ?case by (simp add: dict_get_Nil)
next
  case (2 d k' v' u)
  from "2.prems" have u: "is_dict u" and nk: "k' \<notin> fst ` set u"
    by (simp_all add: is_dict_def)
  from nk have none: "dict_get u k' = None"
    by (rule dict_get_absent)
  from "2.IH" [OF u] none show ?case
    by (simp add: dict_get_setitem dict_get_Cons split: option.splits)
qed

lemma handle_default_args_get:
  "is_mapping_arg args \<Longrightarrow> dict_get (handle_default_args dflt args) k = overridden dflt args k"
  by (cases args)
     (simp_all add: handle_default_args_def overridden_def user_get_def is_mapping_arg_def
        deepcopy_def dict_get_update)

section \<open>What a successful constructor stores\<close>

lemma bio_init_Inr:
  assumes "bio_init env fp la sa cr fa md w = (Inr b, w1)"
  shows "bio_load_args b = handle_default_args BIO_DEFAULT_LOAD_ARGS la"
    and "bio_save_args b = handle_default_args BIO_DEFAULT_SAVE_ARGS sa"
    and "bio_filepath b = pure_posix_path env (snd (projr (get_protocol_and_path env fp None)))"
    and "bio_protocol b = fst (projr (get_protocol_and_path env fp None))"
  using assms
  by (auto simp: bio_init_def Let_def split: prod.splits sum.splits)

lemma graphml_init_Inr:
  assumes "graphml_init env fp la sa ver cr fa md w = (Inr g, w1)"
  shows "gml_load_args g = handle_default_args GRAPHML_DEFAULT_LOAD_ARGS la"
    and "gml_save_args g = handle_default_args GRAPHML_DEFAULT_SAVE_ARGS sa"
    and "gml_filepath g = pure_posix_path env (snd (projr (get_protocol_and_path env fp ver)))"
    and "gml_protocol g = fst (projr (get_protocol_and_path env fp ver))"
    and "gml_version g = ver"
  using assms
  by (auto simp: graphml_init_def Let_def split: prod.splits sum.splits)

lemma gbq_table_init_Inr:
  assumes "gbq_table_init env ds tn pr cr la sa md w = (Inr t, w1)"
  shows "t_load_args t = handle_default_args GBQ_TABLE_DEFAULT_LOAD_ARGS la"
    and "t_save_args t = handle_default_args GBQ_TABLE_DEFAULT_SAVE_ARGS sa"
    and "t_dataset t = ds"
    and "t_table_name t = tn"
  using assms
  by (auto simp: gbq_table_init_def Let_def split: prod.splits sum.splits if_splits)

lemma gbq_query_init_Inr:
  assumes "gbq_query_init env sql pr cr la fa fp md w = (Inr q, w1)"
  shows "q_load_args q =
           (if truthy_str sql
            then dict_setitem ''query'' (PStr (str_path sql))
                   (handle_default_args GBQ_QUERY_DEFAULT_LOAD_ARGS la)
            else handle_default_args GBQ_QUERY_DEFAULT_LOAD_ARGS la)"
    and "q_filepath q =
           (if truthy_str sql then None
            else Some (snd (projr (q_get_protocol_and_path env (str_path fp)))))"
  using assms
  by (auto simp: gbq_query_init_def Let_def split: prod.splits sum.splits if_splits)

section \<open>Read-only adapters\<close>

text \<open>
  C3. \<open>save\<close> on the read-only adapters (\<open>CohereDataset\<close>, \<open>GBQQueryDataset\<close>) raises
  \<open>DatasetError\<close> for every data argument, and leaves the instance and the world (the
  backing store and the trace of collaborator calls) as they were.
\<close>

theorem read_only_save_raises:
  "is_DatasetError (projl (fst (cohere_save self w data)))
   \<and> isl (fst (cohere_save self w data))
   \<and> snd (cohere_save self w data) = (self, w)
   \<and> isl (fst (gbq_query_save q w' data'))
   \<and> is_DatasetError (projl (fst (gbq_query_save q w' data')))
   \<and> snd (gbq_query_save q w' data') = (q, w')"
  by (simp add: cohere_save_def gbq_query_save_def is_DatasetError_def)

section \<open>CohereDataset construction\<close>

text \<open>
  C10. When the credentials mapping lacks \<open>cohere_api_url\<close> or \<open>cohere_api_key\<close>,
  construction fails with a \<open>KeyError\<close> (not a \<open>DatasetError\<close>); when both keys are present
  it succeeds, storing \<open>kwargs or {}\<close>, which is the empty mapping for a missing \<open>kwargs\<close>.
\<close>

theorem cohere_init_credentials:
  "(\<not> dict_has credentials ''cohere_api_url'' \<or> \<not> dict_has credentials ''cohere_api_key''
      \<longrightarrow> (\<exists>e. cohere_init credentials kw = Inl e \<and> is_KeyError e \<and> \<not> is_DatasetError e))
   \<and> (dict_has credentials ''cohere_api_url'' \<and> dict_has credentials ''cohere_api_key''
      \<longrightarrow> (\<exists>self. cohere_init credentials kw = Inr self \<and> kwargs self = or_empty kw
               \<and> (kw = None \<longrightarrow> kwargs self = [])))"
  by (auto simp: cohere_init_def dict_has_def is_KeyError_def is_DatasetError_def
           split: option.splits)

theorem cohere_init_credentials_witness:
  "cohere_init [(''cohere_api_url'', ''u'')] None = Inl (KeyError ''cohere_api_key'')
   \<and> cohere_init [(''cohere_api_url'', ''u''), (''cohere_api_key'', ''k'')] None
       = Inr \<lparr>cohere_api_url = ''u'', cohere_api_key = ''k'', kwargs = []\<rparr>"
  using cohere_init_credentials [of "[(''cohere_api_url'', ''u'')]" None]
    cohere_init_credentials
      [of "[(''cohere_api_url'', ''u''), (''cohere_api_key'', ''k'')]" None]
  by (simp add: cohere_init_def dict_has_def dict_get_def)

section \<open>GBQTableDataset: existence probe\<close>

text \<open>
  C6. \<open>_exists\<close> returns \<open>False\<close> exactly when the probe \<open>get_table\<close> raises \<open>NotFound\<close>;
  every other exception of the probe propagates, and a probe that succeeds gives \<open>True\<close>.
\<close>

theorem gbq_table_exists_not_found:
  "(fst (gbq_table_exists env self w) = Inr False
      \<longleftrightarrow> (\<exists>m. get_table env (t_client self) (t_dataset self) (t_table_name self) (store w)
                  = Inl (NotFound m)))
   \<and> (\<forall>e. get_table env (t_client self) (t_dataset self) (t_table_name self) (store w) = Inl e
          \<and> \<not> is_NotFound e
        \<longrightarrow> fst (gbq_table_exists env self w) = Inl e)
   \<and> (\<forall>u. get_table env (t_client self) (t_dataset self) (t_table_name self) (store w) = Inr u
        \<longrightarrow> fst (gbq_table_exists env self w) = Inr True)"
  by (auto simp: gbq_table_exists_def Let_def is_NotFound_def split: sum.splits error.splits)

theorem gbq_table_exists_not_found_witness:
  "fst (gbq_table_exists not_found_gbq_env stub_table w0) = Inr False
   \<and> fst (gbq_table_exists forbidden_gbq_env stub_table w0) = Inl (ExternalError ''Forbidden'')
   \<and> fst (gbq_table_exists stub_gbq_env stub_table w0) = Inr True"
proof -
  have a: "get_table not_found_gbq_env (t_client stub_table) (t_dataset stub_table)
             (t_table_name stub_table) (store w0) = Inl (NotFound ''Not found: Table'')"
    by (simp add: not_found_gbq_env_def)
  have b: "get_table forbidden_gbq_env (t_client stub_table) (t_dataset stub_table)
             (t_table_name stub_table) (store w0) = Inl (ExternalError ''Forbidden'')"
    by (simp add: forbidden_gbq_env_def)
  have b': "\<not> is_NotFound (ExternalError ''Forbidden'')"
    by (simp add: is_NotFound_def)
  have c: "get_table stub_gbq_env (t_client stub_table) (t_dataset stub_table)
             (t_table_name stub_table) (store w0) = Inr ()"
    by (simp add: stub_gbq_env_def)
  from gbq_table_exists_not_found [of not_found_gbq_env stub_table w0] a
  have 1: "fst (gbq_table_exists not_found_gbq_env stub_table w0) = Inr False" by blast
  from gbq_table_exists_not_found [of forbidden_gbq_env stub_table w0] b b'
  have 2: "fst (gbq_table_exists forbidden_gbq_env stub_table w0) = Inl (ExternalError ''Forbidden'')"
    by blast
  from gbq_table_exists_not_found [of stub_gbq_env stub_table w0] c
  have 3: "fst (gbq_table_exists stub_gbq_env stub_table w0) = Inr True" by blast
  from 1 2 3 show ?thesis by simp
qed

lemma resolve_credentials_accepted:
  assumes "credentials_accepted env cr"
  shows "\<exists>w1. resolve_credentials env cr w = (Inr (credentials_object env cr), w1)"
proof (cases cr)
  case None
  then show ?thesis by (simp add: resolve_credentials_def credentials_object_def)
next
  case (Some a)
  show ?thesis
  proof (cases a)
    case (CredsDict d)
    with Some assms have "\<not> isl (mk_credentials env d)"
      by (simp add: credentials_accepted_def)
    then obtain c where "mk_credentials env d = Inr c"
      by (cases "mk_credentials env d") simp_all
    with Some CredsDict show ?thesis
      by (simp add: resolve_credentials_def credentials_object_def)
  next
    case (CredsObj c)
    with Some show ?thesis by (simp add: resolve_credentials_def credentials_object_def)
  qed
qed

section \<open>GBQQueryDataset construction\<close>

text \<open>
  C4. With \<open>sql\<close> and \<open>filepath\<close> both non-empty the constructor raises
  \<open>DatasetError\<close>; with both absent or empty it raises \<open>DatasetError\<close>; with exactly one
  of them non-empty and otherwise valid arguments construction succeeds. The arguments
  are otherwise valid when the calls the constructor makes are accepted: \<open>Credentials\<close>
  and \<open>bigquery.Client\<close> on either branch, and on the \<open>filepath\<close> branch also the path
  parser and \<open>fsspec.filesystem\<close>, which the \<open>sql\<close> branch never calls.
\<close>

theorem gbq_query_init_sql_xor_filepath:
  "(truthy_str sql \<and> truthy_str filepath \<longrightarrow>
      gbq_query_init env sql project credentials load_args fs_args filepath metadata w
        = (Inl both_provided_error, w))
   \<and> (\<not> truthy_str sql \<and> \<not> truthy_str filepath \<longrightarrow>
      gbq_query_init env sql project credentials load_args fs_args filepath metadata w
        = (Inl both_empty_error, w))
   \<and> is_DatasetError both_provided_error \<and> is_DatasetError both_empty_error
   \<and> (truthy_str sql \<and> \<not> truthy_str filepath
        \<and> credentials_accepted env credentials
        \<and> client_accepted env project credentials load_args \<longrightarrow>
      \<not> isl (fst (gbq_query_init env sql project credentials load_args fs_args filepath
                     metadata w)))
   \<and> (\<not> truthy_str sql \<and> truthy_str filepath
        \<and> credentials_accepted env credentials
        \<and> client_accepted env project credentials load_args
        \<and> query_file_accepted env fs_args filepath \<longrightarrow>
      \<not> isl (fst (gbq_query_init env sql project credentials load_args fs_args filepath
                     metadata w)))"
proof -
  let ?loc = "dict_get_none (handle_default_args GBQ_QUERY_DEFAULT_LOAD_ARGS load_args)
                ''location''"
  let ?creds = "credentials_object env credentials"
  have by_sql: "\<not> isl (fst (gbq_query_init env sql project credentials load_args fs_args
                     filepath metadata w))"
    if t: "truthy_str sql" and nf: "\<not> truthy_str filepath"
      and ca: "credentials_accepted env credentials"
      and cl: "client_accepted env project credentials load_args"
  proof -
    from resolve_credentials_accepted [OF ca, of w]
    obtain w1 where rc: "resolve_credentials env credentials w = (Inr ?creds, w1)"
      by blast
    from cl have "\<not> isl (mk_client env project ?creds ?loc)"
      by (simp add: client_accepted_def)
    then obtain client where mc: "mk_client env project ?creds ?loc = Inr client"
      by (cases "mk_client env project ?creds ?loc") simp_all
    from t nf rc mc show ?thesis
      by (simp add: gbq_query_init_def Let_def)
  qed
  have by_file: "\<not> isl (fst (gbq_query_init env sql project credentials load_args fs_args
                     filepath metadata w))"
    if nt: "\<not> truthy_str sql" and f: "truthy_str filepath"
      and ca: "credentials_accepted env credentials"
      and cl: "client_accepted env project credentials load_args"
      and qf: "query_file_accepted env fs_args filepath"
  proof -
    from resolve_credentials_accepted [OF ca, of w]
    obtain w1 where rc: "resolve_credentials env credentials w = (Inr ?creds, w1)"
      by blast
    from cl have "\<not> isl (mk_client env project ?creds ?loc)"
      by (simp add: client_accepted_def)
    then obtain client where mc: "mk_client env project ?creds ?loc = Inr client"
      by (cases "mk_client env project ?creds ?loc") simp_all
    from qf obtain protocol path where
      pp: "q_get_protocol_and_path env (str_path filepath) = Inr (protocol, path)"
      by (cases "q_get_protocol_and_path env (str_path filepath)")
         (auto simp: query_file_accepted_def)
    from qf pp obtain cd rest where
      pop: "dict_pop ''credentials'' (FDict []) (or_empty fs_args) = (FDict cd, rest)"
      and disj: "set (map fst cd) \<inter> set (map fst rest) = {}"
      and nfs: "\<not> isl (q_filesystem env protocol (map (\<lambda>(k, x). (k, FVal x)) cd @ rest))"
      by (auto simp: query_file_accepted_def split: prod.splits fsval.splits)
    have kj: "kwargs_join (map (\<lambda>(k, x). (k, FVal x)) cd) rest
                = Inr (map (\<lambda>(k, x). (k, FVal x)) cd @ rest)"
      using disj by (simp add: kwargs_join_def comp_def case_prod_unfold)
    let ?kw = "map (\<lambda>(k, x). (k, FVal x)) cd @ rest"
    from nfs obtain fs where fs: "q_filesystem env protocol ?kw = Inr fs"
      by (cases "q_filesystem env protocol ?kw") simp_all
    from nt f rc mc pp pop kj fs show ?thesis
      by (simp add: gbq_query_init_def Let_def as_kwargs_def deepcopy_def)
  qed
  have a: "truthy_str sql \<and> truthy_str filepath \<longrightarrow>
      gbq_query_init env sql project credentials load_args fs_args filepath metadata w
        = (Inl both_provided_error, w)"
    by (simp add: gbq_query_init_def)
  have b: "\<not> truthy_str sql \<and> \<not> truthy_str filepath \<longrightarrow>
      gbq_query_init env sql project credentials load_args fs_args filepath metadata w
        = (Inl both_empty_error, w)"
    by (simp add: gbq_query_init_def)
  have d: "is_DatasetError both_provided_error \<and> is_DatasetError both_empty_error"
    by (simp add: is_DatasetError_def both_provided_error_def both_empty_error_def)
  from a b d by_sql by_file show ?thesis by blast
qed

theorem gbq_query_init_sql_xor_filepath_witness:
  "gbq_query_init stub_gbq_env (Some ''SELECT 1'') None None None None (Some ''q.sql'') None w0
     = (Inl both_provided_error, w0)
   \<and> gbq_query_init stub_gbq_env (Some []) None None None None None None w0
     = (Inl both_empty_error, w0)
   \<and> \<not> isl (fst (gbq_query_init stub_gbq_env (Some ''SELECT 1'') None None None None None
                   None w0))
   \<and> \<not> isl (fst (gbq_query_init stub_gbq_env None None None None None (Some ''q.sql'')
                   None w0))
   \<and> \<not> isl (fst (gbq_query_init picky_gbq_env (Some ''SELECT 1'') None
                   (Some (CredsDict [(''token'', PStr ''secret'')])) None None None None w0))"
proof -
  have ca: "credentials_accepted stub_gbq_env None"
    "credentials_accepted picky_gbq_env (Some (CredsDict [(''token'', PStr ''secret'')]))"
    by (simp_all add: credentials_accepted_def picky_gbq_env_def stub_gbq_env_def)
  have cl: "client_accepted stub_gbq_env None None None"
    "client_accepted picky_gbq_env None (Some (CredsDict [(''token'', PStr ''secret'')])) None"
    by (simp_all add: client_accepted_def picky_gbq_env_def stub_gbq_env_def)
  have qf: "query_file_accepted stub_gbq_env None (Some ''q.sql'')"
    by (simp add: query_file_accepted_def stub_gbq_env_def dict_pop_def dict_get_def)
  from gbq_query_init_sql_xor_filepath
         [of "Some ''SELECT 1''" "Some ''q.sql''" stub_gbq_env None None None None None w0]
  have 1: "gbq_query_init stub_gbq_env (Some ''SELECT 1'') None None None None
             (Some ''q.sql'') None w0 = (Inl both_provided_error, w0)"
    by simp
  from gbq_query_init_sql_xor_filepath
         [of "Some []" None stub_gbq_env None None None None None w0]
  have 2: "gbq_query_init stub_gbq_env (Some []) None None None None None None w0
             = (Inl both_empty_error, w0)"
    by simp
  from gbq_query_init_sql_xor_filepath
         [of "Some ''SELECT 1''" None stub_gbq_env None None None None None w0] ca(1) cl(1)
  have 3: "\<not> isl (fst (gbq_query_init stub_gbq_env (Some ''SELECT 1'') None None None None
                        None None w0))"
    by simp
  from gbq_query_init_sql_xor_filepath
         [of None "Some ''q.sql''" stub_gbq_env None None None None None w0] ca(1) cl(1) qf
  have 4: "\<not> isl (fst (gbq_query_init stub_gbq_env None None None None None (Some ''q.sql'')
                        None w0))"
    by simp
  from gbq_query_init_sql_xor_filepath
         [of "Some ''SELECT 1''" None picky_gbq_env None
             "Some (CredsDict [(''token'', PStr ''secret'')])" None None None w0]
       ca(2) cl(2)
  have 5: "\<not> isl (fst (gbq_query_init picky_gbq_env (Some ''SELECT 1'') None
                   (Some (CredsDict [(''token'', PStr ''secret'')])) None None None None w0))"
    by simp
  from 1 2 3 4 5 show ?thesis by simp
qed

lemma py_ne_PNone: "py_ne v PNone \<longleftrightarrow> v \<noteq> PNone" "py_ne PNone v \<longleftrightarrow> v \<noteq> PNone"
  by (cases v; auto simp: py_ne_def py_eq_def)+

lemma merged_get_none_table:
  assumes "is_mapping_arg la" "is_mapping_arg sa"
  shows "dict_get_none (handle_default_args GBQ_TABLE_DEFAULT_LOAD_ARGS la) ''location''
           = arg_get_none la ''location''"
    and "dict_get_none (handle_default_args GBQ_TABLE_DEFAULT_SAVE_ARGS sa) ''location''
           = arg_get_none sa ''location''"
  using assms
  by (simp_all add: dict_get_none_def arg_get_none_def handle_default_args_get overridden_def
        GBQ_TABLE_DEFAULT_LOAD_ARGS_def GBQ_TABLE_DEFAULT_SAVE_ARGS_def dict_get_Cons
        dict_get_Nil
      split: option.splits)

section \<open>GBQTableDataset: the location check\<close>

text \<open>
  C5, as amended. \<open>_validate_location\<close> compares \<open>save_args.get("location")\<close> with
  \<open>load_args.get("location")\<close>, an absent key reading as \<open>None\<close>. Whenever the two
  compare unequal the constructor raises \<open>DatasetError\<close> with the world untouched: no
  \<open>Credentials\<close> and no \<open>bigquery.Client\<close> has been created. In particular it raises
  when one mapping has a location other than \<open>None\<close> and the other has none.
\<close>

theorem gbq_table_init_location_mismatch:
  assumes "is_mapping_arg load_args" and "is_mapping_arg save_args"
  shows "(py_ne (arg_get_none save_args ''location'') (arg_get_none load_args ''location'')
            \<longrightarrow> gbq_table_init env dataset table_name project credentials load_args save_args
                  metadata w = (Inl location_error, w))
         \<and> is_DatasetError location_error
         \<and> (\<forall>v. v \<noteq> PNone
                \<and> ((user_get load_args ''location'' = Some v
                       \<and> user_get save_args ''location'' = None)
                   \<or> (user_get save_args ''location'' = Some v
                       \<and> user_get load_args ''location'' = None))
              \<longrightarrow> gbq_table_init env dataset table_name project credentials load_args
                    save_args metadata w = (Inl location_error, w))"
proof -
  have a: "gbq_table_init env dataset table_name project credentials load_args save_args
             metadata w = (Inl location_error, w)"
    if "py_ne (arg_get_none save_args ''location'') (arg_get_none load_args ''location'')"
    using that assms
    by (simp add: gbq_table_init_def Let_def validate_location_def merged_get_none_table)
  have b: "py_ne (arg_get_none save_args ''location'') (arg_get_none load_args ''location'')"
    if "v \<noteq> PNone"
      and "(user_get load_args ''location'' = Some v \<and> user_get save_args ''location'' = None)
           \<or> (user_get save_args ''location'' = Some v
               \<and> user_get load_args ''location'' = None)"
    for v
    using that by (auto simp: arg_get_none_def py_ne_PNone)
  have c: "is_DatasetError location_error"
    by (simp add: is_DatasetError_def location_error_def)
  from a b c show ?thesis by blast
qed

theorem gbq_table_init_location_mismatch_witness:
  "gbq_table_init stub_gbq_env ''ds'' ''tbl'' None None
     (Some [(''location'', PStr ''US'')]) (Some [(''location'', PStr ''EU'')]) None w0
     = (Inl location_error, w0)
   \<and> gbq_table_init stub_gbq_env ''ds'' ''tbl'' None None
       (Some [(''location'', PStr ''US'')]) None None w0
     = (Inl location_error, w0)"
proof -
  have m: "is_mapping_arg (Some [(''location'', PStr ''US'')])"
    "is_mapping_arg (Some [(''location'', PStr ''EU'')])"
    "is_mapping_arg (None :: pydict option)"
    by (simp_all add: is_mapping_arg_def is_dict_def)
  have ne: "py_ne (arg_get_none (Some [(''location'', PStr ''EU'')]) ''location'')
              (arg_get_none (Some [(''location'', PStr ''US'')]) ''location'')"
    by (simp add: arg_get_none_def user_get_def dict_get_def py_ne_def py_eq_def)
  have ab: "user_get (Some [(''location'', PStr ''US'')]) ''location'' = Some (PStr ''US'')"
    "user_get None ''location'' = None"
    by (simp_all add: user_get_def dict_get_def)
  from gbq_table_init_location_mismatch [OF m(1) m(2), of stub_gbq_env "''ds''" "''tbl''"
         None None None w0] ne
  have 1: "gbq_table_init stub_gbq_env ''ds'' ''tbl'' None None
     (Some [(''location'', PStr ''US'')]) (Some [(''location'', PStr ''EU'')]) None w0
     = (Inl location_error, w0)"
    by blast
  from gbq_table_init_location_mismatch [OF m(1) m(3), of stub_gbq_env "''ds''" "''tbl''"
         None None None w0] ab
  have 2: "gbq_table_init stub_gbq_env ''ds'' ''tbl'' None None
       (Some [(''location'', PStr ''US'')]) None None w0
     = (Inl location_error, w0)"
    by blast
  from 1 2 show ?thesis by simp
qed

text \<open>
  C5, as stated, counts "one present and the other absent" as different. With
  \<open>load_args = {"location": None}\<close> and no \<open>save_args\<close> the key is present on one side
  only, both \<open>get\<close> calls return \<open>None\<close>, and construction goes through to the client.
\<close>

theorem location_present_vs_absent_counterexample:
  "user_get (Some [(''location'', PNone)]) ''location'' \<noteq> user_get None ''location''
   \<and> gbq_table_init stub_gbq_env ''ds'' ''tbl'' None None
       (Some [(''location'', PNone)]) None None w0
     = (Inr \<lparr>t_load_args = [(''location'', PNone)],
             t_save_args = [(''progress_bar'', PBool False)],
             t_dataset = ''ds'', t_table_name = ''tbl'', t_project_id = None,
             t_credentials = None, t_client = (), t_metadata = None\<rparr>,
        \<lparr>store = (), trace = [EvClient]\<rparr>)"
  by (simp add: user_get_def dict_get_def gbq_table_init_def Let_def handle_default_args_def
        deepcopy_def GBQ_TABLE_DEFAULT_LOAD_ARGS_def GBQ_TABLE_DEFAULT_SAVE_ARGS_def
        validate_location_def dict_get_none_def py_ne_def py_eq_def stub_gbq_env_def
        resolve_credentials_def emit_def w0_def)

lemma succeeds_constructed: "succeeds r \<Longrightarrow> r = (Inr (constructed r), snd r)"
  by (cases r; cases "fst r") (auto simp: succeeds_def constructed_def)

section \<open>describe() and credentials\<close>

text \<open>
  C9. The mapping \<open>_describe\<close> returns does not depend on the credentials: two
  instances of one adapter built from the same arguments except \<open>credentials\<close> give
  the same description.
\<close>

theorem describe_ignores_credentials:
  "(succeeds (bio_init fenv fp la sa cr1 fa md w)
      \<and> succeeds (bio_init fenv fp la sa cr2 fa md w)
      \<longrightarrow> bio_describe (constructed (bio_init fenv fp la sa cr1 fa md w))
           = bio_describe (constructed (bio_init fenv fp la sa cr2 fa md w)))
   \<and> (succeeds (graphml_init fenv fp la sa ver cr1 fa md w)
      \<and> succeeds (graphml_init fenv fp la sa ver cr2 fa md w)
      \<longrightarrow> graphml_describe (constructed (graphml_init fenv fp la sa ver cr1 fa md w))
           = graphml_describe (constructed (graphml_init fenv fp la sa ver cr2 fa md w)))
   \<and> (succeeds (gbq_table_init genv ds tn pr gc1 la sa md gw)
      \<and> succeeds (gbq_table_init genv ds tn pr gc2 la sa md gw)
      \<longrightarrow> gbq_table_describe (constructed (gbq_table_init genv ds tn pr gc1 la sa md gw))
           = gbq_table_describe (constructed (gbq_table_init genv ds tn pr gc2 la sa md gw)))
   \<and> (succeeds (gbq_query_init genv sql pr gc1 la qfa qfp md gw)
      \<and> succeeds (gbq_query_init genv sql pr gc2 la qfa qfp md gw)
      \<longrightarrow> gbq_query_describe py (constructed (gbq_query_init genv sql pr gc1 la qfa qfp md gw))
           = gbq_query_describe py
               (constructed (gbq_query_init genv sql pr gc2 la qfa qfp md gw)))
   \<and> (\<not> isl (cohere_init cc1 kw) \<and> \<not> isl (cohere_init cc2 kw)
      \<longrightarrow> cohere_describe (projr (cohere_init cc1 kw))
           = cohere_describe (projr (cohere_init cc2 kw)))"
proof -
  have bio: "bio_describe (constructed (bio_init fenv fp la sa cr1 fa md w))
           = bio_describe (constructed (bio_init fenv fp la sa cr2 fa md w))"
    if "succeeds (bio_init fenv fp la sa cr1 fa md w)"
      and "succeeds (bio_init fenv fp la sa cr2 fa md w)"
    using bio_init_Inr [OF succeeds_constructed [OF that(1)]]
      bio_init_Inr [OF succeeds_constructed [OF that(2)]]
    by (simp add: bio_describe_def)
  have gml: "graphml_describe (constructed (graphml_init fenv fp la sa ver cr1 fa md w))
           = graphml_describe (constructed (graphml_init fenv fp la sa ver cr2 fa md w))"
    if "succeeds (graphml_init fenv fp la sa ver cr1 fa md w)"
      and "succeeds (graphml_init fenv fp la sa ver cr2 fa md w)"
    using graphml_init_Inr [OF succeeds_constructed [OF that(1)]]
      graphml_init_Inr [OF succeeds_constructed [OF that(2)]]
    by (simp add: graphml_describe_def)
  have tbl: "gbq_table_describe (constructed (gbq_table_init genv ds tn pr gc1 la sa md gw))
           = gbq_table_describe (constructed (gbq_table_init genv ds tn pr gc2 la sa md gw))"
    if "succeeds (gbq_table_init genv ds tn pr gc1 la sa md gw)"
      and "succeeds (gbq_table_init genv ds tn pr gc2 la sa md gw)"
    using gbq_table_init_Inr [OF succeeds_constructed [OF that(1)]]
      gbq_table_init_Inr [OF succeeds_constructed [OF that(2)]]
    by (simp add: gbq_table_describe_def)
  have qry: "gbq_query_describe py (constructed (gbq_query_init genv sql pr gc1 la qfa qfp md gw))
           = gbq_query_describe py
               (constructed (gbq_query_init genv sql pr gc2 la qfa qfp md gw))"
    if "succeeds (gbq_query_init genv sql pr gc1 la qfa qfp md gw)"
      and "succeeds (gbq_query_init genv sql pr gc2 la qfa qfp md gw)"
    using gbq_query_init_Inr [OF succeeds_constructed [OF that(1)]]
      gbq_query_init_Inr [OF succeeds_constructed [OF that(2)]]
    by (simp add: gbq_query_describe_def)
  have coh: "cohere_describe (projr (cohere_init cc1 kw))
           = cohere_describe (projr (cohere_init cc2 kw))"
    if "\<not> isl (cohere_init cc1 kw)" and "\<not> isl (cohere_init cc2 kw)"
    using that
    by (auto simp: cohere_init_def cohere_describe_def split: option.splits)
  from bio gml tbl qry coh show ?thesis by blast
qed

text \<open>Construction on the test doubles goes through.\<close>

lemma stub_file_init_succeeds:
  "succeeds (bio_init mem_file_env fp la sa (Some [(''token'', FVal (PStr ''secret''))])
               None None wf0)"
  "succeeds (bio_init mem_file_env fp la sa None None None wf0)"
  "succeeds (graphml_init mem_file_env fp la sa None
               (Some [(''token'', FVal (PStr ''secret''))]) None None wf0)"
  "succeeds (graphml_init mem_file_env fp la sa None None None None wf0)"
  by (simp_all add: succeeds_def bio_init_def graphml_init_def Let_def deepcopy_def
        dict_pop_def dict_get_def dict_setdefault_def dict_has_def kwargs_join_def
        mem_file_env_def open_args_mode_def)

lemma stub_gbq_table_init_succeeds:
  assumes "validate_location (handle_default_args GBQ_TABLE_DEFAULT_LOAD_ARGS la)
     (handle_default_args GBQ_TABLE_DEFAULT_SAVE_ARGS sa) = Inr ()"
  shows "succeeds (gbq_table_init stub_gbq_env ds tn pr cr la sa md w)"
proof (cases cr)
  case None
  with assms show ?thesis
    by (simp add: succeeds_def gbq_table_init_def Let_def resolve_credentials_def
          stub_gbq_env_def)
next
  case (Some a)
  with assms show ?thesis
    by (cases a)
       (simp_all add: succeeds_def gbq_table_init_def Let_def resolve_credentials_def
          stub_gbq_env_def)
qed

lemma stub_gbq_query_init_succeeds:
  assumes "truthy_str sql"
  shows "succeeds (gbq_query_init stub_gbq_env sql pr cr la None None md w)"
proof (cases cr)
  case None
  with assms show ?thesis
    by (simp add: succeeds_def gbq_query_init_def Let_def resolve_credentials_def
          stub_gbq_env_def)
next
  case (Some a)
  with assms show ?thesis
    by (cases a)
       (simp_all add: succeeds_def gbq_query_init_def Let_def resolve_credentials_def
          stub_gbq_env_def)
qed

theorem describe_ignores_credentials_witness:
  "bio_describe
     (constructed (bio_init mem_file_env ''ls_orchid.fasta'' None None
        (Some [(''token'', FVal (PStr ''secret''))]) None None wf0))
   = bio_describe
       (constructed (bio_init mem_file_env ''ls_orchid.fasta'' None None None None None wf0))
   \<and> graphml_describe
       (constructed (graphml_init mem_file_env ''test.graphml'' None None None
          (Some [(''token'', FVal (PStr ''secret''))]) None None wf0))
     = graphml_describe
         (constructed (graphml_init mem_file_env ''test.graphml'' None None None None None
            None wf0))
   \<and> gbq_table_describe
       (constructed (gbq_table_init stub_gbq_env ''ds'' ''tbl'' None
          (Some (CredsDict [(''token'', PStr ''secret'')])) None None None w0))
     = gbq_table_describe
         (constructed (gbq_table_init stub_gbq_env ''ds'' ''tbl'' None None None None None w0))
   \<and> gbq_query_describe stub_builtins
       (constructed (gbq_query_init stub_gbq_env (Some ''SELECT 1'') None
          (Some (CredsDict [(''token'', PStr ''secret'')])) None None None None w0))
     = gbq_query_describe stub_builtins
         (constructed (gbq_query_init stub_gbq_env (Some ''SELECT 1'') None None None None
            None None w0))
   \<and> cohere_describe
       (projr (cohere_init [(''cohere_api_url'', ''u''), (''cohere_api_key'', ''k1'')] None))
     = cohere_describe
         (projr (cohere_init [(''cohere_api_url'', ''u''), (''cohere_api_key'', ''k2'')] None))"
proof -
  have v: "validate_location (handle_default_args GBQ_TABLE_DEFAULT_LOAD_ARGS None)
     (handle_default_args GBQ_TABLE_DEFAULT_SAVE_ARGS None) = Inr ()"
    by (simp add: validate_location_def handle_default_args_def deepcopy_def
          GBQ_TABLE_DEFAULT_LOAD_ARGS_def GBQ_TABLE_DEFAULT_SAVE_ARGS_def dict_get_none_def
          dict_get_def py_ne_def py_eq_def)
  have t: "truthy_str (Some ''SELECT 1'')" by simp
  have c: "\<not> isl (cohere_init [(''cohere_api_url'', ''u''), (''cohere_api_key'', ''k1'')] None)"
    "\<not> isl (cohere_init [(''cohere_api_url'', ''u''), (''cohere_api_key'', ''k2'')] None)"
    by (simp_all add: cohere_init_def dict_get_def)
  have 1: "bio_describe
     (constructed (bio_init mem_file_env ''ls_orchid.fasta'' None None
        (Some [(''token'', FVal (PStr ''secret''))]) None None wf0))
   = bio_describe
       (constructed (bio_init mem_file_env ''ls_orchid.fasta'' None None None None None wf0))"
    by (rule describe_ignores_credentials [THEN conjunct1, rule_format])
       (simp add: stub_file_init_succeeds)
  have 2: "graphml_describe
       (constructed (graphml_init mem_file_env ''test.graphml'' None None None
          (Some [(''token'', FVal (PStr ''secret''))]) None None wf0))
     = graphml_describe
         (constructed (graphml_init mem_file_env ''test.graphml'' None None None None None
            None wf0))"
    by (rule describe_ignores_credentials [THEN conjunct2, THEN conjunct1, rule_format])
       (simp add: stub_file_init_succeeds)
  have 3: "gbq_table_describe
       (constructed (gbq_table_init stub_gbq_env ''ds'' ''tbl'' None
          (Some (CredsDict [(''token'', PStr ''secret'')])) None None None w0))
     = gbq_table_describe
         (constructed (gbq_table_init stub_gbq_env ''ds'' ''tbl'' None None None None None w0))"
    by (rule describe_ignores_credentials
              [THEN conjunct2, THEN conjunct2, THEN conjunct1, rule_format])
       (simp add: stub_gbq_table_init_succeeds [OF v])
  have 4: "gbq_query_describe stub_builtins
       (constructed (gbq_query_init stub_gbq_env (Some ''SELECT 1'') None
          (Some (CredsDict [(''token'', PStr ''secret'')])) None None None None w0))
     = gbq_query_describe stub_builtins
         (constructed (gbq_query_init stub_gbq_env (Some ''SELECT 1'') None None None None
            None None w0))"
    by (rule describe_ignores_credentials
              [THEN conjunct2, THEN conjunct2, THEN conjunct2, THEN conjunct1, rule_format])
       (simp add: stub_gbq_query_init_succeeds [OF t])
  have 5: "cohere_describe
       (projr (cohere_init [(''cohere_api_url'', ''u''), (''cohere_api_key'', ''k1'')] None))
     = cohere_describe
         (projr (cohere_init [(''cohere_api_url'', ''u''), (''cohere_api_key'', ''k2'')] None))"
    by (rule describe_ignores_credentials
              [THEN conjunct2, THEN conjunct2, THEN conjunct2, THEN conjunct2, rule_format])
       (simp add: c)
  from 1 2 3 4 5 show ?thesis by blast
qed

section \<open>Removing a key\<close>

lemma dict_get_filter_ne:
  "dict_get (filter (\<lambda>p. fst p \<noteq> k) d) k' = (if k' = k then None else dict_get d k')"
  by (induction d) (auto simp: dict_get_def)

lemma dict_get_pop:
  "dict_get (snd (dict_pop k dflt d)) k' = (if k' = k then None else dict_get d k')"
  by (auto simp: dict_pop_def dict_get_filter_ne split: option.splits)

lemma fst_dict_pop_none: "fst (dict_pop k PNone d) = dict_get_none d k"
  by (simp add: dict_pop_def dict_get_none_def split: option.splits)

section \<open>Merged option maps\<close>

text \<open>
  C1, as amended. For a user's \<open>load_args\<close> and \<open>save_args\<close> that are mappings, whenever
  construction succeeds: \<open>BioSequenceDataset\<close>, \<open>GraphMLDataset\<close> and \<open>GBQTableDataset\<close>
  describe under \<open>load_args\<close> and \<open>save_args\<close> the default map overridden by the user's
  map (so \<open>GBQTableDataset\<close> keeps \<open>progress_bar = False\<close> unless the user sets it).
  \<open>GBQQueryDataset\<close> stores the default map overridden by the user's map, except that the
  key \<open>query\<close> holds the \<open>sql\<close> argument when that is given; its description reports
  \<open>str\<close> of the stored map without the key \<open>query\<close> under \<open>load_args\<close>, and \<open>str\<close> of
  the stored query under \<open>sql\<close>.
\<close>

theorem merged_args_override_defaults:
  assumes "is_mapping_arg load_args" and "is_mapping_arg save_args"
  shows
    "(succeeds (bio_init fenv fp load_args save_args cr fa md w) \<longrightarrow>
        reports_merged
          (bio_describe (constructed (bio_init fenv fp load_args save_args cr fa md w)))
          ''load_args'' BIO_DEFAULT_LOAD_ARGS load_args
        \<and> reports_merged
          (bio_describe (constructed (bio_init fenv fp load_args save_args cr fa md w)))
          ''save_args'' BIO_DEFAULT_SAVE_ARGS save_args)
     \<and> (succeeds (graphml_init fenv fp load_args save_args ver cr fa md w) \<longrightarrow>
        reports_merged
          (graphml_describe
             (constructed (graphml_init fenv fp load_args save_args ver cr fa md w)))
          ''load_args'' GRAPHML_DEFAULT_LOAD_ARGS load_args
        \<and> reports_merged
          (graphml_describe
             (constructed (graphml_init fenv fp load_args save_args ver cr fa md w)))
          ''save_args'' GRAPHML_DEFAULT_SAVE_ARGS save_args)
     \<and> (succeeds (gbq_table_init genv ds tn pr gc load_args save_args md gw) \<longrightarrow>
        reports_merged
          (gbq_table_describe
             (constructed (gbq_table_init genv ds tn pr gc load_args save_args md gw)))
          ''load_args'' GBQ_TABLE_DEFAULT_LOAD_ARGS load_args
        \<and> reports_merged
          (gbq_table_describe
             (constructed (gbq_table_init genv ds tn pr gc load_args save_args md gw)))
          ''save_args'' GBQ_TABLE_DEFAULT_SAVE_ARGS save_args
        \<and> (user_get save_args ''progress_bar'' = None \<longrightarrow>
             dict_get
               (t_save_args
                  (constructed (gbq_table_init genv ds tn pr gc load_args save_args md gw)))
               ''progress_bar'' = Some (PBool False)))
     \<and> (succeeds (gbq_query_init genv sql pr gc load_args qfa qfp md gw) \<longrightarrow>
        (\<forall>k. dict_get
               (q_load_args
                  (constructed (gbq_query_init genv sql pr gc load_args qfa qfp md gw))) k
             = (if k = ''query'' \<and> truthy_str sql then Some (PStr (str_path sql))
                else overridden GBQ_QUERY_DEFAULT_LOAD_ARGS load_args k))
        \<and> (\<exists>m. dict_get
                  (gbq_query_describe py
                     (constructed (gbq_query_init genv sql pr gc load_args qfa qfp md gw)))
                  ''load_args'' = Some (DStr (str_dict py m))
               \<and> (\<forall>k. dict_get m k
                        = (if k = ''query'' then None
                           else overridden GBQ_QUERY_DEFAULT_LOAD_ARGS load_args k)))
        \<and> dict_get
            (gbq_query_describe py
               (constructed (gbq_query_init genv sql pr gc load_args qfa qfp md gw)))
            ''sql''
          = Some (DStr (str_val py
               (if truthy_str sql then PStr (str_path sql)
                else (case overridden GBQ_QUERY_DEFAULT_LOAD_ARGS load_args ''query'' of
                        None \<Rightarrow> PNone
                      | Some v \<Rightarrow> v)))))"
proof -
  note get = handle_default_args_get
  have bio: "reports_merged
          (bio_describe (constructed (bio_init fenv fp load_args save_args cr fa md w)))
          ''load_args'' BIO_DEFAULT_LOAD_ARGS load_args
        \<and> reports_merged
          (bio_describe (constructed (bio_init fenv fp load_args save_args cr fa md w)))
          ''save_args'' BIO_DEFAULT_SAVE_ARGS save_args"
    if "succeeds (bio_init fenv fp load_args save_args cr fa md w)"
    using bio_init_Inr(1,2) [OF succeeds_constructed [OF that]] assms
    by (simp add: reports_merged_def bio_describe_def dict_get_Cons get)
  have gml: "reports_merged
          (graphml_describe
             (constructed (graphml_init fenv fp load_args save_args ver cr fa md w)))
          ''load_args'' GRAPHML_DEFAULT_LOAD_ARGS load_args
        \<and> reports_merged
          (graphml_describe
             (constructed (graphml_init fenv fp load_args save_args ver cr fa md w)))
          ''save_args'' GRAPHML_DEFAULT_SAVE_ARGS save_args"
    if "succeeds (graphml_init fenv fp load_args save_args ver cr fa md w)"
    using graphml_init_Inr(1,2) [OF succeeds_constructed [OF that]] assms
    by (simp add: reports_merged_def graphml_describe_def dict_get_Cons get)
  have tbl: "reports_merged
          (gbq_table_describe
             (constructed (gbq_table_init genv ds tn pr gc load_args save_args md gw)))
          ''load_args'' GBQ_TABLE_DEFAULT_LOAD_ARGS load_args
        \<and> reports_merged
          (gbq_table_describe
             (constructed (gbq_table_init genv ds tn pr gc load_args save_args md gw)))
          ''save_args'' GBQ_TABLE_DEFAULT_SAVE_ARGS save_args
        \<and> (user_get save_args ''progress_bar'' = None \<longrightarrow>
             dict_get
               (t_save_args
                  (constructed (gbq_table_init genv ds tn pr gc load_args save_args md gw)))
               ''progress_bar'' = Some (PBool False))"
    if "succeeds (gbq_table_init genv ds tn pr gc load_args save_args md gw)"
    using gbq_table_init_Inr(1,2) [OF succeeds_constructed [OF that]] assms
    by (simp add: reports_merged_def gbq_table_describe_def dict_get_Cons get overridden_def
          GBQ_TABLE_DEFAULT_SAVE_ARGS_def)
  have qry: "(\<forall>k. dict_get
               (q_load_args
                  (constructed (gbq_query_init genv sql pr gc load_args qfa qfp md gw))) k
             = (if k = ''query'' \<and> truthy_str sql then Some (PStr (str_path sql))
                else overridden GBQ_QUERY_DEFAULT_LOAD_ARGS load_args k))
        \<and> (\<exists>m. dict_get
                  (gbq_query_describe py
                     (constructed (gbq_query_init genv sql pr gc load_args qfa qfp md gw)))
                  ''load_args'' = Some (DStr (str_dict py m))
               \<and> (\<forall>k. dict_get m k
                        = (if k = ''query'' then None
                           else overridden GBQ_QUERY_DEFAULT_LOAD_ARGS load_args k)))
        \<and> dict_get
            (gbq_query_describe py
               (constructed (gbq_query_init genv sql pr gc load_args qfa qfp md gw)))
            ''sql''
          = Some (DStr (str_val py
               (if truthy_str sql then PStr (str_path sql)
                else (case overridden GBQ_QUERY_DEFAULT_LOAD_ARGS load_args ''query'' of
                        None \<Rightarrow> PNone
                      | Some v \<Rightarrow> v))))"
    if "succeeds (gbq_query_init genv sql pr gc load_args qfa qfp md gw)"
  proof -
    let ?q = "constructed (gbq_query_init genv sql pr gc load_args qfa qfp md gw)"
    note st = gbq_query_init_Inr(1) [OF succeeds_constructed [OF that]]
    have a: "dict_get (q_load_args ?q) k
             = (if k = ''query'' \<and> truthy_str sql then Some (PStr (str_path sql))
                else overridden GBQ_QUERY_DEFAULT_LOAD_ARGS load_args k)" for k
      using st assms(1) by (simp add: dict_get_setitem get)
    have d: "dict_get (gbq_query_describe py ?q) ''load_args''
               = Some (DStr (str_dict py (snd (dict_pop ''query'' PNone (q_load_args ?q)))))"
      by (simp add: gbq_query_describe_def deepcopy_def dict_get_Cons split: prod.splits)
    have m: "dict_get (snd (dict_pop ''query'' PNone (q_load_args ?q))) k
               = (if k = ''query'' then None
                  else overridden GBQ_QUERY_DEFAULT_LOAD_ARGS load_args k)" for k
      using a [of k] by (simp add: dict_get_pop)
    have q: "dict_get_none (q_load_args ?q) ''query''
               = (if truthy_str sql then PStr (str_path sql)
                  else (case overridden GBQ_QUERY_DEFAULT_LOAD_ARGS load_args ''query'' of
                          None \<Rightarrow> PNone
                        | Some v \<Rightarrow> v))"
      using a [of "''query''"] by (simp add: dict_get_none_def)
    have e: "dict_get (gbq_query_describe py ?q) ''sql''
               = Some (DStr (str_val py (dict_get_none (q_load_args ?q) ''query'')))"
      by (simp add: gbq_query_describe_def deepcopy_def dict_get_Cons
            fst_dict_pop_none [symmetric] split: prod.splits)
    from a d m e q show ?thesis by (simp only:) blast
  qed
  from bio gml tbl qry show ?thesis by blast
qed

theorem merged_args_override_defaults_witness:
  "reports_merged
     (bio_describe
        (constructed (bio_init mem_file_env ''ls_orchid.fasta''
           (Some [(''format'', PStr ''fasta'')]) (Some [(''format'', PStr ''fasta'')])
           None None None wf0)))
     ''load_args'' BIO_DEFAULT_LOAD_ARGS (Some [(''format'', PStr ''fasta'')])
   \<and> reports_merged
     (graphml_describe
        (constructed (graphml_init mem_file_env ''test.graphml''
           (Some [(''format'', PStr ''fasta'')]) (Some [(''format'', PStr ''fasta'')])
           None None None None wf0)))
     ''save_args'' GRAPHML_DEFAULT_SAVE_ARGS (Some [(''format'', PStr ''fasta'')])
   \<and> reports_merged
     (gbq_table_describe
        (constructed (gbq_table_init stub_gbq_env ''ds'' ''tbl'' None None
           (Some [(''reauth'', PBool True)]) (Some [(''chunk_size'', PInt 100)]) None w0)))
     ''save_args'' GBQ_TABLE_DEFAULT_SAVE_ARGS (Some [(''chunk_size'', PInt 100)])
   \<and> dict_get
       (t_save_args
          (constructed (gbq_table_init stub_gbq_env ''ds'' ''tbl'' None None
             (Some [(''reauth'', PBool True)]) (Some [(''chunk_size'', PInt 100)]) None w0)))
       ''progress_bar'' = Some (PBool False)
   \<and> dict_get
       (q_load_args
          (constructed (gbq_query_init stub_gbq_env (Some ''SELECT 1'') None None
             (Some [(''reauth'', PBool True)]) None None None w0)))
       ''reauth'' = Some (PBool True)
   \<and> dict_get
       (gbq_query_describe stub_builtins
          (constructed (gbq_query_init stub_gbq_env (Some ''SELECT 1'') None None
             (Some [(''reauth'', PBool True)]) None None None w0)))
       ''sql'' = Some (DStr ''SELECT 1'')"
proof -
  let ?fa = "Some [(''format'', PStr ''fasta'')]"
  let ?la = "Some [(''reauth'', PBool True)]"
  let ?sa = "Some [(''chunk_size'', PInt 100)]"
  have mf: "is_mapping_arg ?fa" by (simp add: is_mapping_arg_def is_dict_def)
  have ml: "is_mapping_arg ?la" by (simp add: is_mapping_arg_def is_dict_def)
  have ms: "is_mapping_arg ?sa" by (simp add: is_mapping_arg_def is_dict_def)
  have v: "validate_location (handle_default_args GBQ_TABLE_DEFAULT_LOAD_ARGS ?la)
             (handle_default_args GBQ_TABLE_DEFAULT_SAVE_ARGS ?sa) = Inr ()"
    by (simp add: validate_location_def handle_default_args_def deepcopy_def
          GBQ_TABLE_DEFAULT_LOAD_ARGS_def GBQ_TABLE_DEFAULT_SAVE_ARGS_def dict_get_none_def
          dict_get_def py_ne_def py_eq_def)
  have pb: "user_get ?sa ''progress_bar'' = None"
    by (simp add: user_get_def dict_get_def)
  have ov: "overridden GBQ_QUERY_DEFAULT_LOAD_ARGS ?la ''reauth'' = Some (PBool True)"
    by (simp add: overridden_def user_get_def dict_get_def)
  have s1: "succeeds (bio_init mem_file_env ''ls_orchid.fasta'' ?fa ?fa None None None wf0)"
    by (rule stub_file_init_succeeds)
  have s2: "succeeds (graphml_init mem_file_env ''test.graphml'' ?fa ?fa None None None
                        None wf0)"
    by (rule stub_file_init_succeeds)
  have s3: "succeeds (gbq_table_init stub_gbq_env ''ds'' ''tbl'' None None ?la ?sa None w0)"
    by (rule stub_gbq_table_init_succeeds [OF v])
  have s4: "succeeds (gbq_query_init stub_gbq_env (Some ''SELECT 1'') None None ?la None None
                        None w0)"
    by (rule stub_gbq_query_init_succeeds) simp
  note b = merged_args_override_defaults [OF mf mf, THEN conjunct1, rule_format, OF s1]
  note g = merged_args_override_defaults
             [OF mf mf, THEN conjunct2, THEN conjunct1, rule_format, OF s2]
  note t = merged_args_override_defaults
             [OF ml ms, THEN conjunct2, THEN conjunct2, THEN conjunct1, rule_format, OF s3]
  note q = merged_args_override_defaults
             [OF ml ms, THEN conjunct2, THEN conjunct2, THEN conjunct2, rule_format, OF s4]
  from q have q': "dict_get
       (q_load_args
          (constructed (gbq_query_init stub_gbq_env (Some ''SELECT 1'') None None
             ?la None None None w0)))
       ''reauth'' = Some (PBool True)"
    using ov by simp
  from q [where py = stub_builtins] have q'': "dict_get
       (gbq_query_describe stub_builtins
          (constructed (gbq_query_init stub_gbq_env (Some ''SELECT 1'') None None
             ?la None None None w0)))
       ''sql'' = Some (DStr ''SELECT 1'')"
    by (simp add: stub_builtins_def)
  from b g t pb q' q'' show ?thesis by blast
qed

text \<open>
  C1, as stated, fails for \<open>GBQQueryDataset\<close> at the key \<open>query\<close>: the user's
  \<open>load_args["query"]\<close> is replaced by \<open>sql\<close>, and the description's \<open>load_args\<close> does
  not show the key at all.
\<close>

theorem query_key_not_users_counterexample:
  "user_get (Some [(''query'', PStr ''SELECT 2'')]) ''query'' = Some (PStr ''SELECT 2'')
   \<and> gbq_query_init stub_gbq_env (Some ''SELECT 1'') None None
       (Some [(''query'', PStr ''SELECT 2'')]) None None None w0
     = (Inr stub_query, \<lparr>store = (), trace = [EvClient]\<rparr>)
   \<and> dict_get (q_load_args stub_query) ''query'' = Some (PStr ''SELECT 1'')
   \<and> gbq_query_describe stub_builtins stub_query
     = [(''sql'', DStr ''SELECT 1''), (''filepath'', DStr ''None''),
        (''load_args'', DStr ''{}'')]"
  by (simp add: user_get_def dict_get_def gbq_query_init_def Let_def handle_default_args_def
        deepcopy_def GBQ_QUERY_DEFAULT_LOAD_ARGS_def dict_get_none_def stub_gbq_env_def
        resolve_credentials_def emit_def w0_def stub_query_def gbq_query_describe_def
        dict_pop_def stub_builtins_def)

section \<open>Stored option maps across calls\<close>

lemma calls_keep_instance:
  "fst (snd (bio_load fenv b w)) = b"
  "fst (snd (bio_save fenv b w d)) = b"
  "fst (snd (bio_exists fenv b w)) = b"
  "fst (snd (graphml_load fenv g w)) = g"
  "fst (snd (graphml_save fenv g w d)) = g"
  "fst (snd (graphml_exists fenv g w)) = g"
  "fst (snd (gbq_table_save genv t gw df)) = t"
  "fst (snd (gbq_table_exists genv t gw)) = t"
  "fst (snd (gbq_query_load genv q gw)) = q"
  "fst (snd (gbq_query_save q gw x)) = q"
  "fst (snd (cohere_load cenv c cw)) = c"
  "fst (snd (cohere_save c cw y)) = c"
  by (auto simp: bio_load_def bio_save_def bio_exists_def graphml_load_def graphml_save_def
        graphml_exists_def gbq_table_save_def gbq_table_exists_def gbq_query_load_def
        gbq_query_save_def cohere_load_def cohere_save_def Let_def
      split: sum.splits prod.splits option.splits error.splits)

lemma gbq_table_load_instance:
  "fst (snd (gbq_table_load genv t gw))
     = t\<lparr>t_load_args :=
           dict_setdefault ''query''
             (PStr (''select * from '' @ t_dataset t @ ''.'' @ t_table_name t))
             (t_load_args t)\<rparr>"
  by (simp add: gbq_table_load_def Let_def)

text \<open>
  C2 at \<open>GBQTableDataset("ds", "tbl")\<close>: the description before \<open>load()\<close> has the empty
  \<open>load_args\<close>; \<open>_load\<close> calls \<open>setdefault("query", ...)\<close> on the stored map, and the
  description afterwards has the generated query in \<open>load_args\<close>.
\<close>

theorem gbq_table_load_changes_load_args:
  "gbq_table_init stub_gbq_env ''ds'' ''tbl'' None None None None None w0
     = (Inr stub_table, \<lparr>store = (), trace = [EvClient]\<rparr>)
   \<and> gbq_table_describe stub_table
     = [(''dataset'', DStr ''ds''), (''table_name'', DStr ''tbl''),
        (''load_args'', DDict []),
        (''save_args'', DDict [(''progress_bar'', PBool False)])]
   \<and> gbq_table_describe
       (fst (snd (gbq_table_load stub_gbq_env stub_table \<lparr>store = (), trace = [EvClient]\<rparr>)))
     = [(''dataset'', DStr ''ds''), (''table_name'', DStr ''tbl''),
        (''load_args'', DDict [(''query'', PStr ''select * from ds.tbl'')]),
        (''save_args'', DDict [(''progress_bar'', PBool False)])]"
  by (simp add: gbq_table_init_def Let_def handle_default_args_def deepcopy_def
        GBQ_TABLE_DEFAULT_LOAD_ARGS_def GBQ_TABLE_DEFAULT_SAVE_ARGS_def
        validate_location_def dict_get_none_def dict_get_def py_ne_def py_eq_def
        stub_gbq_env_def resolve_credentials_def emit_def w0_def stub_table_def
        gbq_table_describe_def gbq_table_load_def dict_setdefault_def dict_has_def
        keyword_clash_def)

section \<open>Cache invalidation after save\<close>

lemma graphml_save_invalidates:
  assumes "fst (graphml_save fenv g w d) = Inr ()"
  shows "\<exists>tr. trace (snd (snd (graphml_save fenv g w d)))
            = tr @ [EvInvalidateCache (get_filepath_str fenv (gml_filepath g) (gml_protocol g))]"
  using assms
  by (auto simp: graphml_save_def graphml_invalidate_cache_def Let_def emit_def
      split: sum.splits prod.splits option.splits)

lemma bio_save_trace:
  "trace (snd (snd (bio_save fenv b w d)))
     = trace w @ [EvOpen (get_filepath_str fenv (bio_filepath b) (bio_protocol b))
                    (bio_fs_open_args_save b)]
   \<or> trace (snd (snd (bio_save fenv b w d)))
     = trace w @ [EvOpen (get_filepath_str fenv (bio_filepath b) (bio_protocol b))
                    (bio_fs_open_args_save b),
                  EvSeqWrite (bio_save_args b)]"
  by (auto simp: bio_save_def Let_def emit_def split: sum.splits prod.splits option.splits)

text \<open>
  C7 at that instance: a successful \<open>save\<close> of two records opens the file and writes;
  the trace ends there, \<open>invalidate_cache\<close> is not called.
\<close>

theorem bio_save_does_not_invalidate_cache:
  "bio_init mem_file_env ''ls_orchid.fasta'' (Some [(''format'', PStr ''fasta'')])
     (Some [(''format'', PStr ''fasta'')]) None None None wf0
     = (Inr bio_demo, \<lparr>store = [], trace = [EvFilesystem ''file'']\<rparr>)
   \<and> bio_save mem_file_env bio_demo \<lparr>store = [], trace = [EvFilesystem ''file'']\<rparr>
       [''Alpha'', ''Beta'']
     = (Inr (), bio_demo,
        \<lparr>store = [(''ls_orchid.fasta'', [''Alpha'', ''Beta''])],
         trace = [EvFilesystem ''file'',
                  EvOpen ''ls_orchid.fasta'' [(''mode'', PStr ''w'')],
                  EvSeqWrite [(''format'', PStr ''fasta'')]]\<rparr>)"
  by (simp add: bio_init_def bio_save_def Let_def handle_default_args_def deepcopy_def
        BIO_DEFAULT_LOAD_ARGS_def BIO_DEFAULT_SAVE_ARGS_def dict_pop_def dict_get_def
        dict_setdefault_def dict_has_def kwargs_join_def mem_file_env_def open_args_mode_def
        emit_def wf0_def bio_demo_def keyword_clash_def)

end
